theory Spec2Isabelle
  imports Complex_Main "HOL-Library.Word"
begin

section \<open>Numbers, vectors and matrices\<close>

text \<open>
  The component is a React hook around the three.js engine. JavaScript numbers are
  modelled as real numbers: arithmetic is exact, \<open>Math.PI\<close> is \<^term>\<open>pi\<close>, and
  \<open>Math.cos\<close>, \<open>Math.sin\<close>, \<open>Math.sqrt\<close> are the real functions. The engine's
  vector, quaternion and matrix methods that the component calls are transcribed from
  three.js (\<open>Vector3\<close>, \<open>Quaternion\<close>, \<open>Matrix3\<close>, \<open>Matrix4\<close>, \<open>Box3\<close>,
  \<open>Object3D\<close>); a method that mutates its receiver returns the new value here.
\<close>

record Vector2 =
  ux :: real
  uy :: real

record Vector3 =
  vx :: real
  vy :: real
  vz :: real

record Quaternion =
  qx :: real
  qy :: real
  qz :: real
  qw :: real

text \<open>Field \<open>nij\<close> is row \<open>i\<close>, column \<open>j\<close>, the argument order of \<open>Matrix3.set\<close>.\<close>

record Matrix3 =
  n11 :: real  n12 :: real  n13 :: real
  n21 :: real  n22 :: real  n23 :: real
  n31 :: real  n32 :: real  n33 :: real

text \<open>Field \<open>mij\<close> is row \<open>i\<close>, column \<open>j\<close>, the argument order of \<open>Matrix4.set\<close>.\<close>

record Matrix4 =
  m11 :: real  m12 :: real  m13 :: real  m14 :: real
  m21 :: real  m22 :: real  m23 :: real  m24 :: real
  m31 :: real  m32 :: real  m33 :: real  m34 :: real
  m41 :: real  m42 :: real  m43 :: real  m44 :: real

definition vec2 :: "real \<Rightarrow> real \<Rightarrow> Vector2" where
  "vec2 a b = \<lparr>ux = a, uy = b\<rparr>"

definition vec3 :: "real \<Rightarrow> real \<Rightarrow> real \<Rightarrow> Vector3" where
  "vec3 a b c = \<lparr>vx = a, vy = b, vz = c\<rparr>"

subsection \<open>Vector3\<close>

definition length_v :: "Vector3 \<Rightarrow> real" where
  "length_v v = sqrt (vx v * vx v + vy v * vy v + vz v * vz v)"

definition multiplyScalar :: "Vector3 \<Rightarrow> real \<Rightarrow> Vector3" where
  "multiplyScalar v s = vec3 (vx v * s) (vy v * s) (vz v * s)"

definition divideScalar :: "Vector3 \<Rightarrow> real \<Rightarrow> Vector3" where
  "divideScalar v s = multiplyScalar v (1 / s)"

text \<open>
  \<open>normalize() { return this.divideScalar( this.length() || 1 ) }\<close>: a zero length is
  falsy, so the divisor is then 1. \<open>normalizeDivisor\<close> is that divisor.
\<close>

definition normalizeDivisor :: "Vector3 \<Rightarrow> real" where
  "normalizeDivisor v = (if length_v v = 0 then 1 else length_v v)"

definition normalize :: "Vector3 \<Rightarrow> Vector3" where
  "normalize v = divideScalar v (normalizeDivisor v)"


definition addVectors :: "Vector3 \<Rightarrow> Vector3 \<Rightarrow> Vector3" where
  "addVectors a b = vec3 (vx a + vx b) (vy a + vy b) (vz a + vz b)"

definition subVectors :: "Vector3 \<Rightarrow> Vector3 \<Rightarrow> Vector3" where
  "subVectors a b = vec3 (vx a - vx b) (vy a - vy b) (vz a - vz b)"

text \<open>\<open>Vector3.applyQuaternion\<close>: \<open>v + w t + q \<times> t\<close> with \<open>t = 2 (q \<times> v)\<close>.\<close>

definition applyQuaternion :: "Vector3 \<Rightarrow> Quaternion \<Rightarrow> Vector3" where
  "applyQuaternion v q =
     (let tx = 2 * (qy q * vz v - qz q * vy v);
          ty = 2 * (qz q * vx v - qx q * vz v);
          tz = 2 * (qx q * vy v - qy q * vx v)
      in vec3 (vx v + qw q * tx + qy q * tz - qz q * ty)
              (vy v + qw q * ty + qz q * tx - qx q * tz)
              (vz v + qw q * tz + qx q * ty - qy q * tx))"

text \<open>\<open>Vector3.applyMatrix4\<close>, with its perspective divide.\<close>

definition applyMatrix4_v :: "Vector3 \<Rightarrow> Matrix4 \<Rightarrow> Vector3" where
  "applyMatrix4_v v m =
     (let w = 1 / (m41 m * vx v + m42 m * vy v + m43 m * vz v + m44 m)
      in vec3 ((m11 m * vx v + m12 m * vy v + m13 m * vz v + m14 m) * w)
              ((m21 m * vx v + m22 m * vy v + m23 m * vz v + m24 m) * w)
              ((m31 m * vx v + m32 m * vy v + m33 m * vz v + m34 m) * w))"

subsection \<open>Matrix3\<close>

definition set_m3 ::
  "real \<Rightarrow> real \<Rightarrow> real \<Rightarrow> real \<Rightarrow> real \<Rightarrow> real \<Rightarrow> real \<Rightarrow> real \<Rightarrow> real \<Rightarrow> Matrix3" where
  "set_m3 a b c d e f g h i =
     \<lparr>n11 = a, n12 = b, n13 = c, n21 = d, n22 = e, n23 = f, n31 = g, n32 = h, n33 = i\<rparr>"

definition identity_m3 :: Matrix3 where
  "identity_m3 = set_m3 1 0 0 0 1 0 0 0 1"

definition multiplyMatrices_m3 :: "Matrix3 \<Rightarrow> Matrix3 \<Rightarrow> Matrix3" where
  "multiplyMatrices_m3 a b =
     set_m3 (n11 a * n11 b + n12 a * n21 b + n13 a * n31 b)
            (n11 a * n12 b + n12 a * n22 b + n13 a * n32 b)
            (n11 a * n13 b + n12 a * n23 b + n13 a * n33 b)
            (n21 a * n11 b + n22 a * n21 b + n23 a * n31 b)
            (n21 a * n12 b + n22 a * n22 b + n23 a * n32 b)
            (n21 a * n13 b + n22 a * n23 b + n23 a * n33 b)
            (n31 a * n11 b + n32 a * n21 b + n33 a * n31 b)
            (n31 a * n12 b + n32 a * n22 b + n33 a * n32 b)
            (n31 a * n13 b + n32 a * n23 b + n33 a * n33 b)"

text \<open>\<open>premultiply( m ) { return this.multiplyMatrices( m, this ) }\<close>\<close>

definition premultiply_m3 :: "Matrix3 \<Rightarrow> Matrix3 \<Rightarrow> Matrix3" where
  "premultiply_m3 this m = multiplyMatrices_m3 m this"

definition makeTranslation_m3 :: "real \<Rightarrow> real \<Rightarrow> Matrix3" where
  "makeTranslation_m3 tx ty = set_m3 1 0 tx 0 1 ty 0 0 1"

definition makeRotation_m3 :: "real \<Rightarrow> Matrix3" where
  "makeRotation_m3 theta =
     (let c = cos theta; s = sin theta in set_m3 c (- s) 0 s c 0 0 0 1)"

definition makeScale_m3 :: "real \<Rightarrow> real \<Rightarrow> Matrix3" where
  "makeScale_m3 sx sy = set_m3 sx 0 0 0 sy 0 0 0 1"

definition translate :: "Matrix3 \<Rightarrow> real \<Rightarrow> real \<Rightarrow> Matrix3" where
  "translate this tx ty = premultiply_m3 this (makeTranslation_m3 tx ty)"

definition rotate_m3 :: "Matrix3 \<Rightarrow> real \<Rightarrow> Matrix3" where
  "rotate_m3 this theta = premultiply_m3 this (makeRotation_m3 (- theta))"

definition scale_m3 :: "Matrix3 \<Rightarrow> real \<Rightarrow> real \<Rightarrow> Matrix3" where
  "scale_m3 this sx sy = premultiply_m3 this (makeScale_m3 sx sy)"

definition setUvTransform ::
  "real \<Rightarrow> real \<Rightarrow> real \<Rightarrow> real \<Rightarrow> real \<Rightarrow> real \<Rightarrow> real \<Rightarrow> Matrix3" where
  "setUvTransform tx ty sx sy rotation cx cy =
     (let c = cos rotation; s = sin rotation
      in set_m3 (sx * c) (sx * s) (- sx * (c * cx + s * cy) + cx + tx)
                (- sy * s) (sy * c) (- sy * (- s * cx + c * cy) + cy + ty)
                0 0 1)"

text \<open>\<open>Vector2.applyMatrix3\<close>: the point \<open>(u, v, 1)\<close> multiplied by the matrix, as
  the renderer's vertex stage transforms a texture coordinate.\<close>

definition applyMatrix3 :: "Vector2 \<Rightarrow> Matrix3 \<Rightarrow> Vector2" where
  "applyMatrix3 p m =
     vec2 (n11 m * ux p + n12 m * uy p + n13 m) (n21 m * ux p + n22 m * uy p + n23 m)"

subsection \<open>Matrix4\<close>

definition set_m4 ::
  "real \<Rightarrow> real \<Rightarrow> real \<Rightarrow> real \<Rightarrow> real \<Rightarrow> real \<Rightarrow> real \<Rightarrow> real \<Rightarrow>
   real \<Rightarrow> real \<Rightarrow> real \<Rightarrow> real \<Rightarrow> real \<Rightarrow> real \<Rightarrow> real \<Rightarrow> real \<Rightarrow> Matrix4" where
  "set_m4 a11 a12 a13 a14 a21 a22 a23 a24 a31 a32 a33 a34 a41 a42 a43 a44 =
     \<lparr>m11 = a11, m12 = a12, m13 = a13, m14 = a14,
      m21 = a21, m22 = a22, m23 = a23, m24 = a24,
      m31 = a31, m32 = a32, m33 = a33, m34 = a34,
      m41 = a41, m42 = a42, m43 = a43, m44 = a44\<rparr>"

definition identity_m4 :: Matrix4 where
  "identity_m4 = set_m4 1 0 0 0  0 1 0 0  0 0 1 0  0 0 0 1"

definition multiplyMatrices_m4 :: "Matrix4 \<Rightarrow> Matrix4 \<Rightarrow> Matrix4" where
  "multiplyMatrices_m4 a b =
     set_m4 (m11 a * m11 b + m12 a * m21 b + m13 a * m31 b + m14 a * m41 b)
            (m11 a * m12 b + m12 a * m22 b + m13 a * m32 b + m14 a * m42 b)
            (m11 a * m13 b + m12 a * m23 b + m13 a * m33 b + m14 a * m43 b)
            (m11 a * m14 b + m12 a * m24 b + m13 a * m34 b + m14 a * m44 b)
            (m21 a * m11 b + m22 a * m21 b + m23 a * m31 b + m24 a * m41 b)
            (m21 a * m12 b + m22 a * m22 b + m23 a * m32 b + m24 a * m42 b)
            (m21 a * m13 b + m22 a * m23 b + m23 a * m33 b + m24 a * m43 b)
            (m21 a * m14 b + m22 a * m24 b + m23 a * m34 b + m24 a * m44 b)
            (m31 a * m11 b + m32 a * m21 b + m33 a * m31 b + m34 a * m41 b)
            (m31 a * m12 b + m32 a * m22 b + m33 a * m32 b + m34 a * m42 b)
            (m31 a * m13 b + m32 a * m23 b + m33 a * m33 b + m34 a * m43 b)
            (m31 a * m14 b + m32 a * m24 b + m33 a * m34 b + m34 a * m44 b)
            (m41 a * m11 b + m42 a * m21 b + m43 a * m31 b + m44 a * m41 b)
            (m41 a * m12 b + m42 a * m22 b + m43 a * m32 b + m44 a * m42 b)
            (m41 a * m13 b + m42 a * m23 b + m43 a * m33 b + m44 a * m43 b)
            (m41 a * m14 b + m42 a * m24 b + m43 a * m34 b + m44 a * m44 b)"

definition premultiply_m4 :: "Matrix4 \<Rightarrow> Matrix4 \<Rightarrow> Matrix4" where
  "premultiply_m4 this m = multiplyMatrices_m4 m this"

definition makeTranslation_m4 :: "Vector3 \<Rightarrow> Matrix4" where
  "makeTranslation_m4 v = set_m4 1 0 0 (vx v)  0 1 0 (vy v)  0 0 1 (vz v)  0 0 0 1"

definition makeRotationAxis :: "Vector3 \<Rightarrow> real \<Rightarrow> Matrix4" where
  "makeRotationAxis axis angle =
     (let c = cos angle; s = sin angle; t = 1 - c;
          x = vx axis; y = vy axis; z = vz axis;
          tx = t * x; ty = t * y
      in set_m4 (tx * x + c) (tx * y - s * z) (tx * z + s * y) 0
                (tx * y + s * z) (ty * y + c) (ty * z - s * x) 0
                (tx * z - s * y) (ty * z + s * x) (t * z * z + c) 0
                0 0 0 1)"

text \<open>\<open>Matrix4.compose( position, quaternion, scale )\<close>\<close>

definition compose :: "Vector3 \<Rightarrow> Quaternion \<Rightarrow> Vector3 \<Rightarrow> Matrix4" where
  "compose p q s =
     (let x = qx q; y = qy q; z = qz q; w = qw q;
          x2 = x + x; y2 = y + y; z2 = z + z;
          xx = x * x2; xy = x * y2; xz = x * z2;
          yy = y * y2; yz = y * z2; zz = z * z2;
          wx = w * x2; wy = w * y2; wz = w * z2;
          sx = vx s; sy = vy s; sz = vz s
      in set_m4 ((1 - (yy + zz)) * sx) ((xy - wz) * sy) ((xz + wy) * sz) (vx p)
                ((xy + wz) * sx) ((1 - (xx + zz)) * sy) ((yz - wx) * sz) (vy p)
                ((xz - wy) * sx) ((yz + wx) * sy) ((1 - (xx + yy)) * sz) (vz p)
                0 0 0 1)"

definition determinant :: "Matrix4 \<Rightarrow> real" where
  "determinant m =
     m41 m * (m14 m * m23 m * m32 m - m13 m * m24 m * m32 m - m14 m * m22 m * m33 m
              + m12 m * m24 m * m33 m + m13 m * m22 m * m34 m - m12 m * m23 m * m34 m)
   + m42 m * (m11 m * m23 m * m34 m - m11 m * m24 m * m33 m + m14 m * m21 m * m33 m
              - m13 m * m21 m * m34 m + m13 m * m24 m * m31 m - m14 m * m23 m * m31 m)
   + m43 m * (m11 m * m24 m * m32 m - m11 m * m22 m * m34 m - m14 m * m21 m * m32 m
              + m12 m * m21 m * m34 m + m14 m * m22 m * m31 m - m12 m * m24 m * m31 m)
   + m44 m * (- m13 m * m22 m * m31 m - m11 m * m23 m * m32 m + m11 m * m22 m * m33 m
              + m13 m * m21 m * m32 m - m12 m * m21 m * m33 m + m12 m * m23 m * m31 m)"

subsection \<open>Quaternion\<close>

text \<open>\<open>Quaternion.setFromRotationMatrix\<close>: the upper 3x3 of the argument is taken to be a
  pure rotation; four branches pick the largest component to divide by.\<close>

definition setFromRotationMatrix :: "Matrix4 \<Rightarrow> Quaternion" where
  "setFromRotationMatrix m =
     (let trace = m11 m + m22 m + m33 m in
      if trace > 0 then
        (let s = 0.5 / sqrt (trace + 1.0)
         in \<lparr>qx = (m32 m - m23 m) * s, qy = (m13 m - m31 m) * s,
             qz = (m21 m - m12 m) * s, qw = 0.25 / s\<rparr>)
      else if m11 m > m22 m \<and> m11 m > m33 m then
        (let s = 2.0 * sqrt (1.0 + m11 m - m22 m - m33 m)
         in \<lparr>qx = 0.25 * s, qy = (m12 m + m21 m) / s,
             qz = (m13 m + m31 m) / s, qw = (m32 m - m23 m) / s\<rparr>)
      else if m22 m > m33 m then
        (let s = 2.0 * sqrt (1.0 + m22 m - m11 m - m33 m)
         in \<lparr>qx = (m12 m + m21 m) / s, qy = 0.25 * s,
             qz = (m23 m + m32 m) / s, qw = (m13 m - m31 m) / s\<rparr>)
      else
        (let s = 2.0 * sqrt (1.0 + m33 m - m11 m - m22 m)
         in \<lparr>qx = (m13 m + m31 m) / s, qy = (m23 m + m32 m) / s,
             qz = 0.25 * s, qw = (m21 m - m12 m) / s\<rparr>))"

text \<open>\<open>Quaternion.setFromEuler\<close> for the default order \<open>XYZ\<close>.\<close>

definition setFromEuler :: "real \<Rightarrow> real \<Rightarrow> real \<Rightarrow> Quaternion" where
  "setFromEuler ex ey ez =
     (let c1 = cos (ex / 2); c2 = cos (ey / 2); c3 = cos (ez / 2);
          s1 = sin (ex / 2); s2 = sin (ey / 2); s3 = sin (ez / 2)
      in \<lparr>qx = s1 * c2 * c3 + c1 * s2 * s3, qy = c1 * s2 * c3 - s1 * c2 * s3,
          qz = c1 * c2 * s3 + s1 * s2 * c3, qw = c1 * c2 * c3 - s1 * s2 * s3\<rparr>)"

text \<open>
  \<open>Matrix4.decompose( position, quaternion, scale )\<close>: the scale is the length of each
  column (the first negated when the determinant is negative), the position is the last
  column, and the quaternion is read from the columns divided by the scale.
\<close>

definition decompose :: "Matrix4 \<Rightarrow> Vector3 \<times> Quaternion \<times> Vector3" where
  "decompose m =
     (let sx0 = length_v (vec3 (m11 m) (m21 m) (m31 m));
          sy = length_v (vec3 (m12 m) (m22 m) (m32 m));
          sz = length_v (vec3 (m13 m) (m23 m) (m33 m));
          det = determinant m;
          sx = (if det < 0 then - sx0 else sx0);
          invSX = 1 / sx; invSY = 1 / sy; invSZ = 1 / sz;
          m1 = m\<lparr>m11 := m11 m * invSX, m21 := m21 m * invSX, m31 := m31 m * invSX,
                 m12 := m12 m * invSY, m22 := m22 m * invSY, m32 := m32 m * invSY,
                 m13 := m13 m * invSZ, m23 := m23 m * invSZ, m33 := m33 m * invSZ\<rparr>
      in (vec3 (m14 m) (m24 m) (m34 m), setFromRotationMatrix m1, vec3 sx sy sz))"

subsection \<open>Box3\<close>

text \<open>
  three.js marks the empty box by \<open>min = +Infinity\<close>, \<open>max = -Infinity\<close>; here it is a
  constructor of its own. \<open>setFromPoints\<close> of no point is the empty box.
\<close>

datatype Box3 = EmptyBox | Box (bmin: Vector3) (bmax: Vector3)

definition expandByPoint :: "Box3 \<Rightarrow> Vector3 \<Rightarrow> Box3" where
  "expandByPoint b p =
     (case b of
        EmptyBox \<Rightarrow> Box p p
      | Box mn mx \<Rightarrow>
          Box (vec3 (min (vx mn) (vx p)) (min (vy mn) (vy p)) (min (vz mn) (vz p)))
              (vec3 (max (vx mx) (vx p)) (max (vy mx) (vy p)) (max (vz mx) (vz p))))"

definition setFromPoints :: "Vector3 list \<Rightarrow> Box3" where
  "setFromPoints ps = fold (\<lambda>p b. expandByPoint b p) ps EmptyBox"

definition applyMatrix4_b :: "Box3 \<Rightarrow> Matrix4 \<Rightarrow> Box3" where
  "applyMatrix4_b b m =
     (case b of
        EmptyBox \<Rightarrow> EmptyBox
      | Box mn mx \<Rightarrow>
          setFromPoints
            [applyMatrix4_v (vec3 (vx mn) (vy mn) (vz mn)) m,
             applyMatrix4_v (vec3 (vx mn) (vy mn) (vz mx)) m,
             applyMatrix4_v (vec3 (vx mn) (vy mx) (vz mn)) m,
             applyMatrix4_v (vec3 (vx mn) (vy mx) (vz mx)) m,
             applyMatrix4_v (vec3 (vx mx) (vy mn) (vz mn)) m,
             applyMatrix4_v (vec3 (vx mx) (vy mn) (vz mx)) m,
             applyMatrix4_v (vec3 (vx mx) (vy mx) (vz mn)) m,
             applyMatrix4_v (vec3 (vx mx) (vy mx) (vz mx)) m])"

definition union_b :: "Box3 \<Rightarrow> Box3 \<Rightarrow> Box3" where
  "union_b a b =
     (case a of
        EmptyBox \<Rightarrow> b
      | Box amn amx \<Rightarrow>
          (case b of
             EmptyBox \<Rightarrow> a
           | Box bmn bmx \<Rightarrow>
               Box (vec3 (min (vx amn) (vx bmn)) (min (vy amn) (vy bmn)) (min (vz amn) (vz bmn)))
                   (vec3 (max (vx amx) (vx bmx)) (max (vy amx) (vy bmx)) (max (vz amx) (vz bmx)))))"

text \<open>\<open>getSize\<close> and \<open>getCenter\<close> answer the zero vector for the empty box.\<close>

definition getSize :: "Box3 \<Rightarrow> Vector3" where
  "getSize b = (case b of EmptyBox \<Rightarrow> vec3 0 0 0 | Box mn mx \<Rightarrow> subVectors mx mn)"

definition getCenter :: "Box3 \<Rightarrow> Vector3" where
  "getCenter b =
     (case b of EmptyBox \<Rightarrow> vec3 0 0 0 | Box mn mx \<Rightarrow> multiplyScalar (addVectors mn mx) 0.5)"

section \<open>Pure helpers of the component\<close>

subsection \<open>\<open>convertBGRAtoRGBA\<close>\<close>

text \<open>
  \<open>imageData.data\<close> is a \<open>Uint8ClampedArray\<close>: a read past the end is \<open>undefined\<close>, a
  write past the end is dropped, and storing \<open>undefined\<close> stores 0.
\<close>

type_synonym byte = "8 word"

record ImageData =
  width_i :: nat
  height_i :: nat
  data :: "byte list"

definition getIndex :: "byte list \<Rightarrow> nat \<Rightarrow> byte option" where
  "getIndex d i = (if i < length d then Some (d ! i) else None)"

definition setIndex :: "byte list \<Rightarrow> nat \<Rightarrow> byte option \<Rightarrow> byte list" where
  "setIndex d i v =
     (if i < length d then d[i := (case v of None \<Rightarrow> 0 | Some b \<Rightarrow> b)] else d)"

text \<open>
  The loop \<open>for (let i = 0; i < data.length; i += 4)\<close> with its body
  \<open>[data[i], data[i + 2]] = [data[i + 2], data[i]]\<close>: both reads happen before the
  two writes.
\<close>

function convertLoop :: "nat \<Rightarrow> byte list \<Rightarrow> byte list" where
  "convertLoop i d =
     (if i < length d
      then convertLoop (i + 4)
             (setIndex (setIndex d i (getIndex d (i + 2))) (i + 2) (getIndex d i))
      else d)"
  by pat_completeness auto
termination
  by (relation "measure (\<lambda>(i, d). length d - i)") (auto simp: setIndex_def)

definition convertBGRAtoRGBA :: "ImageData \<Rightarrow> ImageData" where
  "convertBGRAtoRGBA imageData = imageData\<lparr>data := convertLoop 0 (data imageData)\<rparr>"

subsection \<open>Scene graph and \<open>findMeshInModel\<close>\<close>

text \<open>
  A node of the scene graph: whether it is a \<open>THREE.Mesh\<close>, its name, a reference to its
  material (an index into the material store below), the vertex positions of its geometry
  when it has one, its world matrix, and its children.
\<close>

datatype Object3D =
  Object3D (isMesh: bool) (name: string) (material: nat)
           (geometry: "Vector3 list option") (matrixWorld: Matrix4)
           (children: "Object3D list")

text \<open>\<open>Object3D.traverse\<close>: the callback on the node itself, then on each child's
  subtree in order.\<close>

fun traverse :: "(Object3D \<Rightarrow> 's \<Rightarrow> 's) \<Rightarrow> Object3D \<Rightarrow> 's \<Rightarrow> 's" where
  "traverse callback (Object3D im nm mat g mw cs) s =
     fold (\<lambda>c. traverse callback c) cs (callback (Object3D im nm mat g mw cs) s)"

text \<open>\<open>String.prototype.includes\<close>: the fragment occurs at some position.\<close>

fun includes_s :: "string \<Rightarrow> string \<Rightarrow> bool" where
  "includes_s [] fragment = (fragment = [])"
| "includes_s (c # cs) fragment =
     (take (length fragment) (c # cs) = fragment \<or> includes_s cs fragment)"

definition findMeshInModel :: "Object3D \<Rightarrow> string \<Rightarrow> Object3D option" where
  "findMeshInModel model nm =
     traverse (\<lambda>obj targetMesh.
                 if isMesh obj \<and> includes_s (name obj) nm then Some obj else targetMesh)
              model None"

subsection \<open>\<open>getMeshDimensions\<close>\<close>

text \<open>
  \<open>Box3.expandByObject\<close> (not precise): the bounding box of the node's geometry, carried
  to world space by the node's world matrix, is united with the box; then the children
  are visited. The world matrix is the one \<open>updateWorldMatrix\<close> has just refreshed.
\<close>

fun expandByObject :: "Box3 \<Rightarrow> Object3D \<Rightarrow> Box3" where
  "expandByObject box (Object3D im nm mat g mw cs) =
     fold (\<lambda>c b. expandByObject b c) cs
       (case g of
          None \<Rightarrow> box
        | Some positions \<Rightarrow> union_b box (applyMatrix4_b (setFromPoints positions) mw))"

definition setFromObject :: "Object3D \<Rightarrow> Box3" where
  "setFromObject obj = expandByObject EmptyBox obj"

text \<open>
  \<open>parseFloat(x.toFixed(2))\<close>: the nearest multiple of 0.01, a tie going away from
  zero; from \<open>10^21\<close> on \<open>toFixed\<close> prints the number itself.
\<close>

definition toFixed2 :: "real \<Rightarrow> real" where
  "toFixed2 r =
     (if \<bar>r\<bar> \<ge> 10 ^ 21 then r
      else (if r < 0 then - 1 else 1) * real_of_int \<lfloor>\<bar>r\<bar> * 100 + 1 / 2\<rfloor> / 100)"

record MeshDimensions =
  width :: real
  height :: real
  depth :: real
  center_d :: Vector3

text \<open>
  The box, its size and its centre are computed here in exact arithmetic. The program
  computes them in doubles, so a dimension whose exact value lies on a rounding boundary
  of \<open>toFixed(2)\<close> can come out 0.01 away from the value here. The engine also
  caches the geometry's bounding box and refreshes the node's matrices during the call;
  those caches are not part of this model. The loader code only stores the three numbers.
\<close>

definition getMeshDimensions :: "Object3D \<Rightarrow> MeshDimensions" where
  "getMeshDimensions mesh =
     (let box = setFromObject mesh;
          size = getSize box;
          center = getCenter box
      in \<lparr>width = toFixed2 (vx size), height = toFixed2 (vy size),
          depth = toFixed2 (vz size), center_d = center\<rparr>)"

section \<open>The state of the \<open>useSkateboard\<close> hook\<close>

datatype ColorSpace = NoColorSpace | SRGBColorSpace | LinearSRGBColorSpace

datatype Wrapping = RepeatWrapping | ClampToEdgeWrapping | MirroredRepeatWrapping

record Texture =
  colorSpace :: ColorSpace
  wrapS :: Wrapping
  wrapT :: Wrapping
  matrixAutoUpdate :: bool
  matrix :: Matrix3
  offset :: Vector2
  repeat :: Vector2
  rotation :: real
  center :: Vector2
  version_t :: nat

record Material =
  transparent :: bool
  opacity :: real
  alphaTest :: real
  polygonOffset :: bool
  polygonOffsetFactor :: real
  polygonOffsetUnits :: real
  map_texture :: "Texture option"
  version_m :: nat

text \<open>
  What the renderer does with a texture before drawing: \<open>updateMatrix\<close> recomputes the
  matrix from offset, repeat, rotation and center, but only when \<open>matrixAutoUpdate\<close> is
  set; the matrix is then uploaded as the UV transform.
\<close>

definition updateMatrix_t :: "Texture \<Rightarrow> Texture" where
  "updateMatrix_t t =
     t\<lparr>matrix := setUvTransform (ux (offset t)) (uy (offset t)) (ux (repeat t)) (uy (repeat t))
                                (rotation t) (ux (center t)) (uy (center t))\<rparr>"

definition rendererUvTransform :: "Texture \<Rightarrow> Matrix3" where
  "rendererUvTransform t = matrix (if matrixAutoUpdate t then updateMatrix_t t else t)"

text \<open>Position and orientation, which the camera and the model both have.\<close>

record Pose =
  position :: Vector3
  quaternion :: Quaternion

text \<open>
  The loaded model: the root group \<open>gltf.scene\<close> with its identity (\<open>uuid\<close>), its
  subtree, its own transform, and the three material references the loader code stores
  on it as extra properties (\<open>None\<close> while a property is undefined).
\<close>

record Model = Pose +
  scale :: Vector3
  uuid :: nat
  object :: Object3D
  baseMaterial :: "nat option"
  topStickerMaterial :: "nat option"
  bottomStickerMaterial :: "nat option"

text \<open>
  The messages passed to \<open>setError\<close>. \<open>ModelLoadFailed\<close> is the catch block of
  \<open>loadSkateboardModel\<close>, which prefixes the message of what was thrown:
  \<open>MissingMeshes\<close> is the component's own \<open>Error\<close> saying that no
  base/top_sticker/bottom_sticker mesh was found and asking to check the model's naming,
  \<open>Thrown\<close> any other failure with its message.
\<close>

datatype Thrown = MissingMeshes | Thrown string

datatype ErrorMsg =
    SceneNotInitialised
  | ModelLoadFailed Thrown
  | FlipNeedsModel
  | TextureLoadFailed string

text \<open>
  Materials are shared objects (a mesh, the model's extra properties and the texture
  callback all hold the same one), so they live in a store indexed by reference. The scene
  holds its children by identity.
\<close>

record State =
  sceneRef :: "nat list option"
  cameraRef :: "Pose option"
  rendererReady :: bool
  modelRef :: "Model option"
  keysPressed :: "string set"
  cameraMoveSpeed :: real
  error :: "ErrorMsg option"
  modelLoading :: bool
  boardDimensions :: "(real \<times> real \<times> real) option"
  materials :: "nat \<Rightarrow> Material"

subsection \<open>\<open>flipModel\<close>\<close>

datatype Axis = AxisX | AxisY | AxisZ

text \<open>\<open>Object3D.updateMatrix\<close> and \<open>Object3D.applyMatrix4\<close> (\<open>matrixAutoUpdate\<close> has its
  default, true: nothing in the component changes it).\<close>

definition updateMatrix :: "Model \<Rightarrow> Matrix4" where
  "updateMatrix ob = compose (position ob) (quaternion ob) (scale ob)"

definition applyMatrix4_o :: "Model \<Rightarrow> Matrix4 \<Rightarrow> Model" where
  "applyMatrix4_o ob m =
     (case decompose (premultiply_m4 (updateMatrix ob) m) of
        (p, q, s) \<Rightarrow> ob\<lparr>position := p, quaternion := q, scale := s\<rparr>)"

definition flipModel :: "Axis \<Rightarrow> State \<Rightarrow> State" where
  "flipModel axis st =
     (case modelRef st of
        None \<Rightarrow> st\<lparr>error := Some FlipNeedsModel\<rparr>
      | Some model \<Rightarrow>
          (let rotateAngle = pi;
               localAxis = (case axis of
                              AxisX \<Rightarrow> vec3 1 0 0
                            | AxisY \<Rightarrow> vec3 0 1 0
                            | AxisZ \<Rightarrow> vec3 0 0 1);
               worldAxis = normalize (applyQuaternion localAxis (quaternion model));
               rotationMatrix = makeRotationAxis worldAxis rotateAngle;
               modelPosition = position model;
               model1 = model\<lparr>position := vec3 0 0 0\<rparr>;
               model2 = applyMatrix4_o model1 rotationMatrix;
               model3 = model2\<lparr>position := modelPosition\<rparr>
           in st\<lparr>modelRef := Some model3, error := None\<rparr>))"

subsection \<open>\<open>loadSkateboardModel\<close>\<close>

text \<open>The outcome of an asynchronous load: the promise resolves or rejects.\<close>

datatype 'a Outcome = Resolved 'a | Rejected string

text \<open>\<open>Object3D.remove\<close> and \<open>Object3D.add\<close> on the list of children.\<close>

definition remove_child :: "nat \<Rightarrow> nat list \<Rightarrow> nat list" where
  "remove_child u cs = remove1 u cs"

definition add_child :: "nat \<Rightarrow> nat list \<Rightarrow> nat list" where
  "add_child u cs = remove1 u cs @ [u]"

text \<open>
  Up to the \<open>await\<close>: the guard, the removal of the previous model, and the flags. The
  boolean says whether the function goes on to load. Releasing the old geometry and
  materials, console output and the scene statistics change nothing that is modelled.
\<close>

definition loadSkateboardModel_begin :: "State \<Rightarrow> State \<times> bool" where
  "loadSkateboardModel_begin st =
     (if sceneRef st = None \<or> \<not> rendererReady st
      then (st\<lparr>error := Some SceneNotInitialised\<rparr>, False)
      else
        (let st1 = (case modelRef st of
                      None \<Rightarrow> st
                    | Some old \<Rightarrow>
                        st\<lparr>sceneRef := map_option (remove_child (uuid old)) (sceneRef st),
                           modelRef := None, boardDimensions := None\<rparr>)
         in (st1\<lparr>modelLoading := True, error := None\<rparr>, True)))"

definition setStickerMaterial :: "Material \<Rightarrow> Material" where
  "setStickerMaterial m =
     m\<lparr>transparent := True, opacity := 0, alphaTest := 0.01, polygonOffset := True,
       polygonOffsetFactor := - 1, polygonOffsetUnits := - 1\<rparr>"

text \<open>
  After the \<open>await\<close>, with the loader's outcome. The root group the loader returns is
  fresh, so setting \<open>rotation.y\<close> leaves the Euler angles \<open>(0, \<pi>/4, 0)\<close>. Everything
  thrown inside \<open>try\<close> ends in the catch block; \<open>finally\<close> clears \<open>modelLoading\<close>.
\<close>

definition loadSkateboardModel_resume :: "Model Outcome \<Rightarrow> State \<Rightarrow> State" where
  "loadSkateboardModel_resume outcome st =
     (case outcome of
        Rejected msg \<Rightarrow> st\<lparr>error := Some (ModelLoadFailed (Thrown msg)), modelLoading := False\<rparr>
      | Resolved gltf_scene \<Rightarrow>
          (let model = gltf_scene\<lparr>scale := vec3 1 1 1, position := vec3 0 1 0,
                                  quaternion := setFromEuler 0 (pi / 4) 0\<rparr>;
               baseMesh = findMeshInModel (object model) ''base'';
               topStickerMesh = findMeshInModel (object model) ''top_sticker'';
               bottomStickerMesh = findMeshInModel (object model) ''bottom_sticker''
           in case (baseMesh, topStickerMesh, bottomStickerMesh) of
                (Some base_m, Some top_m, Some bottom_m) \<Rightarrow>
                  (let dimensions = getMeshDimensions base_m;
                       st1 = st\<lparr>boardDimensions :=
                                  Some (width dimensions, height dimensions, depth dimensions)\<rparr>;
                       mats1 = (materials st1)
                                 (material top_m := setStickerMaterial (materials st1 (material top_m)));
                       mats2 = mats1(material bottom_m := setStickerMaterial (mats1 (material bottom_m)));
                       model1 = model\<lparr>baseMaterial := Some (material base_m),
                                      topStickerMaterial := Some (material top_m),
                                      bottomStickerMaterial := Some (material bottom_m)\<rparr>;
                       st2 = st1\<lparr>materials := mats2, modelRef := Some model1\<rparr>
                   in case sceneRef st2 of
                        None \<Rightarrow> st2\<lparr>error := Some (ModelLoadFailed (Thrown ''TypeError'')),
                                    modelLoading := False\<rparr>
                      | Some cs \<Rightarrow> st2\<lparr>sceneRef := Some (add_child (uuid model1) cs),
                                       modelLoading := False\<rparr>)
              | _ \<Rightarrow> st\<lparr>error := Some (ModelLoadFailed MissingMeshes), modelLoading := False\<rparr>))"

text \<open>One load with nothing else running between its two halves.\<close>

definition loadSkateboardModel :: "Model Outcome \<Rightarrow> State \<Rightarrow> State" where
  "loadSkateboardModel outcome st =
     (case loadSkateboardModel_begin st of
        (st1, False) \<Rightarrow> st1
      | (st1, True) \<Rightarrow> loadSkateboardModel_resume outcome st1)"

subsection \<open>\<open>loadTextureFromUrl\<close>\<close>

text \<open>
  \<open>textureLoader.load(url, onLoad, undefined, onError)\<close>: the function below is the two
  callbacks, chosen by the outcome of the load. \<open>material_ref\<close> is the material the
  callback captured. Each \<open>needsUpdate = true\<close> bumps a version counter. Disposing of
  the previous map and refreshing the scene statistics change nothing that is modelled.
\<close>

definition bottomMatrix :: "Matrix3 \<Rightarrow> Matrix3" where
  "bottomMatrix m0 =
     (let scaleX = 1.01; scaleY = 4.1; rotation = pi / 2;
          m1 = translate m0 (- 0.5) (- 0.5);
          m2 = rotate_m3 m1 rotation;
          m3 = scale_m3 m2 scaleX scaleY;
          m4 = translate m3 0.5 0.045
      in m4)"

definition topMatrix :: Matrix3 where
  "topMatrix =
     (let scaleX = 1.01; scaleY = 3.735; rotation = pi / 2
      in setUvTransform (0.5 - (scaleX / 2)) (0.5 - (scaleY / 2)) scaleX scaleY rotation 0.5 0.5)"

definition loadTextureFromUrl :: "Texture Outcome \<Rightarrow> nat \<Rightarrow> bool \<Rightarrow> State \<Rightarrow> State" where
  "loadTextureFromUrl outcome material_ref isBottom st =
     (case outcome of
        Rejected err \<Rightarrow> st\<lparr>error := Some (TextureLoadFailed err)\<rparr>
      | Resolved texture \<Rightarrow>
          (let t1 = texture\<lparr>colorSpace := SRGBColorSpace, wrapS := ClampToEdgeWrapping,
                            wrapT := ClampToEdgeWrapping, matrixAutoUpdate := False,
                            matrix := identity_m3\<rparr>;
               t2 = (if isBottom then t1\<lparr>matrix := bottomMatrix (matrix t1)\<rparr>
                     else t1\<lparr>matrix := topMatrix\<rparr>);
               t3 = t2\<lparr>center := vec2 0.5 0.5, version_t := Suc (version_t t2)\<rparr>;
               mat = materials st material_ref;
               mat1 = mat\<lparr>map_texture := Some t3, opacity := 1, version_m := Suc (version_m mat)\<rparr>
           in st\<lparr>materials := (materials st)(material_ref := mat1)\<rparr>))"

subsection \<open>\<open>animate\<close>: the camera's step in one tick\<close>


section \<open>Notions used to state the properties\<close>

text \<open>The nodes of a graph in the order a depth-first traversal visits them.\<close>

fun preorder :: "Object3D \<Rightarrow> Object3D list" where
  "preorder (Object3D im nm mat g mw cs) =
     Object3D im nm mat g mw cs # concat (map preorder cs)"

text \<open>\<open>contains_fragment s f\<close>: \<open>f\<close> is a substring of \<open>s\<close>.\<close>

definition contains_fragment :: "string \<Rightarrow> string \<Rightarrow> bool" where
  "contains_fragment s f = (\<exists>ps ss. s = ps @ f @ ss)"

text \<open>
  A small deck model: a root group with four meshes, as many materials, and one triangle
  of geometry each.
\<close>

definition triangle :: "Vector3 list" where
  "triangle = [vec3 0 0 0, vec3 1 0 0, vec3 0 2 3]"

definition mesh_named :: "string \<Rightarrow> nat \<Rightarrow> Object3D" where
  "mesh_named nm mat = Object3D True nm mat (Some triangle) identity_m4 []"

definition deck_graph :: Object3D where
  "deck_graph =
     Object3D False ''Scene'' 0 None identity_m4
       [mesh_named ''base_mesh'' 1, mesh_named ''top_sticker_L'' 2,
        mesh_named ''bottom_sticker'' 3, mesh_named ''wheel'' 4]"

text \<open>The loader's result for that deck, and for a deck that lacks the bottom sticker.\<close>

definition identity_q :: Quaternion where
  "identity_q = \<lparr>qx = 0, qy = 0, qz = 0, qw = 1\<rparr>"

definition deck_model :: Model where
  "deck_model =
     \<lparr>position = vec3 0 0 0, quaternion = identity_q, scale = vec3 1 1 1, uuid = 7,
      object = deck_graph, baseMaterial = None, topStickerMaterial = None,
      bottomStickerMaterial = None\<rparr>"

definition deck_without_bottom :: Model where
  "deck_without_bottom =
     deck_model\<lparr>uuid := 8,
                object := Object3D False ''Scene'' 0 None identity_m4
                            [mesh_named ''base_mesh'' 1, mesh_named ''top_sticker_L'' 2,
                             mesh_named ''wheel'' 4]\<rparr>"

text \<open>A material and a texture as three.js creates them, and the hook's state once
  \<open>initScene\<close> has run: three lights in the scene, the camera at (0, 2, 5).\<close>

definition new_material :: Material where
  "new_material =
     \<lparr>transparent = False, opacity = 1, alphaTest = 0, polygonOffset = False,
      polygonOffsetFactor = 0, polygonOffsetUnits = 0, map_texture = None, version_m = 0\<rparr>"

definition new_texture :: Texture where
  "new_texture =
     \<lparr>colorSpace = NoColorSpace, wrapS = ClampToEdgeWrapping, wrapT = ClampToEdgeWrapping,
      matrixAutoUpdate = True, matrix = identity_m3, offset = vec2 0 0, repeat = vec2 1 1,
      rotation = 0, center = vec2 0 0, version_t = 0\<rparr>"

definition ready_state :: State where
  "ready_state =
     \<lparr>sceneRef = Some [101, 102, 103],
      cameraRef = Some \<lparr>position = vec3 0 2 5, quaternion = identity_q\<rparr>,
      rendererReady = True, modelRef = None, keysPressed = {}, cameraMoveSpeed = 0.05,
      error = None, modelLoading = False, boardDimensions = None,
      materials = (\<lambda>r. new_material)\<rparr>"







text \<open>
  Unit quaternions, the opposite quaternion (which stands for the same rotation), and a
  quaternion followed by the half turn about a principal axis: the product of \<open>q\<close> with
  \<open>(1,0,0,0)\<close>, \<open>(0,1,0,0)\<close> or \<open>(0,0,1,0)\<close>.
\<close>

definition unit_q :: "Quaternion \<Rightarrow> bool" where
  "unit_q q = (qx q * qx q + qy q * qy q + qz q * qz q + qw q * qw q = 1)"

definition negate_q :: "Quaternion \<Rightarrow> Quaternion" where
  "negate_q q = \<lparr>qx = - qx q, qy = - qy q, qz = - qz q, qw = - qw q\<rparr>"

definition half_turn :: "Axis \<Rightarrow> Quaternion \<Rightarrow> Quaternion" where
  "half_turn axis q =
     (case axis of
        AxisX \<Rightarrow> \<lparr>qx = qw q, qy = qz q, qz = - qy q, qw = - qx q\<rparr>
      | AxisY \<Rightarrow> \<lparr>qx = - qz q, qy = qw q, qz = qx q, qw = - qy q\<rparr>
      | AxisZ \<Rightarrow> \<lparr>qx = qy q, qy = - qx q, qz = qw q, qw = - qz q\<rparr>)"

section \<open>The channel converter\<close>

declare convertLoop.simps [simp del]

lemma length_setIndex: "length (setIndex d i v) = length d"
  by (simp add: setIndex_def)

lemma length_convertLoop: "length (convertLoop i d) = length d"
  by (induction i d rule: convertLoop.induct)
     (subst convertLoop.simps, simp add: length_setIndex)

text \<open>On a buffer of whole pixels the loop, started at a pixel boundary, exchanges offsets
  0 and 2 of every pixel from there on and leaves everything else.\<close>

lemma convertLoop_nth:
  "4 dvd i \<Longrightarrow> 4 dvd length d \<Longrightarrow> j < length d \<Longrightarrow>
   convertLoop i d ! j =
     (if i \<le> j \<and> j mod 4 = 0 then d ! (j + 2)
      else if i \<le> j \<and> j mod 4 = 2 then d ! (j - 2) else d ! j)"
proof (induction i d arbitrary: j rule: convertLoop.induct)
  case (1 i d)
  show ?case
  proof (cases "i < length d")
    case False
    then show ?thesis using "1.prems" by (subst convertLoop.simps) simp
  next
    case True
    from True "1.prems"(1,2) have i3: "i + 3 < length d"
      by (elim dvdE) auto
    let ?d = "setIndex (setIndex d i (getIndex d (i + 2))) (i + 2) (getIndex d i)"
    have d_eq: "?d = d[i := d ! (i + 2), i + 2 := d ! i]"
      using i3 by (simp add: setIndex_def getIndex_def)
    have step: "convertLoop i d = convertLoop (i + 4) ?d"
      using True by (subst convertLoop.simps) simp
    have ih: "convertLoop (i + 4) ?d ! j =
        (if i + 4 \<le> j \<and> j mod 4 = 0 then ?d ! (j + 2)
         else if i + 4 \<le> j \<and> j mod 4 = 2 then ?d ! (j - 2) else ?d ! j)"
      using "1.IH"[OF True, of j] "1.prems" by (simp add: length_setIndex)
    have i0: "i mod 4 = 0" using "1.prems"(1) by simp
    have imod: "i mod 4 = 0" "(i + 1) mod 4 = 1" "(i + 2) mod 4 = 2" "(i + 3) mod 4 = 3"
      using i0 by presburger+
    have res: "convertLoop i d ! j =
        (if i + 4 \<le> j \<and> j mod 4 = 0 then d[i := d ! (i + 2), i + 2 := d ! i] ! (j + 2)
         else if i + 4 \<le> j \<and> j mod 4 = 2 then d[i := d ! (i + 2), i + 2 := d ! i] ! (j - 2)
         else d[i := d ! (i + 2), i + 2 := d ! i] ! j)"
      using step ih d_eq by simp
    consider "j < i" | "j = i" | "j = i + 1" | "j = i + 2" | "j = i + 3" | "i + 4 \<le> j"
      by linarith
    then show ?thesis
    proof cases
      case 1 then show ?thesis unfolding res using i3 by simp
    next
      case 2 then show ?thesis unfolding res using i3 imod by simp
    next
      case 3 then show ?thesis unfolding res using i3 imod by simp
    next
      case 4 then show ?thesis unfolding res using i3 imod by simp
    next
      case 5 then show ?thesis unfolding res using i3 imod by simp
    next
      case 6
      have far: "j mod 4 = 2 \<Longrightarrow> j - 2 \<noteq> Suc (Suc i)"
        using 6 i0 by presburger
      from 6 have ne: "j \<noteq> i" "j \<noteq> Suc (Suc i)" "j - 2 \<noteq> i" "Suc (Suc j) \<noteq> i"
        by linarith+
      show ?thesis unfolding res using 6 ne far "1.prems"(3) by (auto simp: nth_list_update)
    qed
  qed
qed

lemma swapped_nth:
  assumes "4 dvd length d" "j < length d"
  shows "convertLoop 0 d ! j =
     (if j mod 4 = 0 then d ! (j + 2) else if j mod 4 = 2 then d ! (j - 2) else d ! j)"
  using convertLoop_nth[of 0 d j] assms by simp

lemma convertLoop_twice:
  assumes "4 dvd length d"
  shows "convertLoop 0 (convertLoop 0 d) = d"
proof (rule nth_equalityI)
  show "length (convertLoop 0 (convertLoop 0 d)) = length d"
    by (simp add: length_convertLoop)
next
  fix j assume "j < length (convertLoop 0 (convertLoop 0 d))"
  then have j: "j < length d" by (simp add: length_convertLoop)
  have len: "4 dvd length (convertLoop 0 d)" using assms by (simp add: length_convertLoop)
  have outer: "convertLoop 0 (convertLoop 0 d) ! j =
      (if j mod 4 = 0 then convertLoop 0 d ! (j + 2)
       else if j mod 4 = 2 then convertLoop 0 d ! (j - 2) else convertLoop 0 d ! j)"
    using swapped_nth[OF len] j by (simp add: length_convertLoop)
  consider "j mod 4 = 0" | "j mod 4 = 2" | "j mod 4 \<noteq> 0 \<and> j mod 4 \<noteq> 2" by blast
  then show "convertLoop 0 (convertLoop 0 d) ! j = d ! j"
  proof cases
    case 1
    have in_range: "j + 2 < length d"
      using 1 j assms by (elim dvdE) presburger
    have m: "(j + 2) mod 4 = 2" using 1 by presburger
    show ?thesis using outer 1 m swapped_nth[OF assms in_range] by simp
  next
    case 2
    have m: "(j - 2) mod 4 = 0" "j - 2 < length d" "j - 2 + 2 = j"
      using 2 j by presburger+
    show ?thesis using outer 2 m swapped_nth[OF assms m(2)] by simp
  next
    case 3
    then show ?thesis using outer swapped_nth[OF assms j] by simp
  qed
qed

text \<open>
  C6. For every pixel buffer whose length is a multiple of 4, converting twice gives back
  the buffer byte for byte; one conversion keeps the length, exchanges the bytes at offsets
  0 and 2 of every 4-byte pixel and leaves those at offsets 1 and 3.
\<close>

theorem convertBGRAtoRGBA_involution:
  assumes "length (data img) mod 4 = 0"
  shows "convertBGRAtoRGBA (convertBGRAtoRGBA img) = img
       \<and> length (data (convertBGRAtoRGBA img)) = length (data img)
       \<and> (\<forall>j < length (data img).
            data (convertBGRAtoRGBA img) ! j =
              (if j mod 4 = 0 then data img ! (j + 2)
               else if j mod 4 = 2 then data img ! (j - 2)
               else data img ! j))"
proof -
  from assms have d4: "4 dvd length (data img)" by presburger
  have twice: "convertBGRAtoRGBA (convertBGRAtoRGBA img) = img"
    by (simp add: convertBGRAtoRGBA_def convertLoop_twice[OF d4])
  have len: "length (data (convertBGRAtoRGBA img)) = length (data img)"
    by (simp add: convertBGRAtoRGBA_def length_convertLoop)
  have pix: "\<forall>j < length (data img).
            data (convertBGRAtoRGBA img) ! j =
              (if j mod 4 = 0 then data img ! (j + 2)
               else if j mod 4 = 2 then data img ! (j - 2)
               else data img ! j)"
    using swapped_nth[OF d4] by (simp add: convertBGRAtoRGBA_def)
  from twice len pix show ?thesis by blast
qed

theorem convertBGRAtoRGBA_involution_witness:
  "length (data \<lparr>width_i = 2, height_i = 1, data = [10, 20, 30, 255, 1, 2, 3, 4]\<rparr>) mod 4 = 0
   \<and> convertBGRAtoRGBA
       (convertBGRAtoRGBA \<lparr>width_i = 2, height_i = 1, data = [10, 20, 30, 255, 1, 2, 3, 4]\<rparr>)
     = \<lparr>width_i = 2, height_i = 1, data = [10, 20, 30, 255, 1, 2, 3, 4]\<rparr>
   \<and> data (convertBGRAtoRGBA \<lparr>width_i = 2, height_i = 1, data = [10, 20, 30, 255, 1, 2, 3, 4]\<rparr>)
     = [30, 20, 10, 255, 3, 2, 1, 4]"
proof -
  let ?img = "\<lparr>width_i = 2, height_i = 1, data = [10, 20, 30, 255, 1, 2, 3, 4 :: byte]\<rparr>"
  have h: "length (data ?img) mod 4 = 0" by simp
  have run: "data (convertBGRAtoRGBA ?img) = [30, 20, 10, 255, 3, 2, 1, 4]"
    by (simp add: convertBGRAtoRGBA_def convertLoop.simps setIndex_def getIndex_def)
  from convertBGRAtoRGBA_involution[OF h] h run show ?thesis by blast
qed

section \<open>The surface locator\<close>

lemma includes_s_iff: "includes_s s f = contains_fragment s f"
proof (induction s)
  case Nil
  show ?case by (auto simp: contains_fragment_def)
next
  case (Cons c cs)
  have "contains_fragment (c # cs) f \<longleftrightarrow>
        take (length f) (c # cs) = f \<or> contains_fragment cs f"
  proof
    assume "contains_fragment (c # cs) f"
    then obtain ps ss where eq: "c # cs = ps @ f @ ss"
      by (auto simp: contains_fragment_def)
    show "take (length f) (c # cs) = f \<or> contains_fragment cs f"
    proof (cases ps)
      case Nil
      with eq have "take (length f) (c # cs) = f" by simp
      then show ?thesis ..
    next
      case (Cons p ps')
      with eq have "cs = ps' @ f @ ss" by simp
      then have "contains_fragment cs f" by (auto simp: contains_fragment_def)
      then show ?thesis ..
    qed
  next
    assume "take (length f) (c # cs) = f \<or> contains_fragment cs f"
    then show "contains_fragment (c # cs) f"
    proof
      assume t: "take (length f) (c # cs) = f"
      have "c # cs = [] @ take (length f) (c # cs) @ drop (length f) (c # cs)" by simp
      with t have "c # cs = [] @ f @ drop (length f) (c # cs)" by simp
      then show ?thesis unfolding contains_fragment_def by blast
    next
      assume "contains_fragment cs f"
      then obtain ps ss where "cs = ps @ f @ ss" by (auto simp: contains_fragment_def)
      then have "c # cs = (c # ps) @ f @ ss" by simp
      then show ?thesis unfolding contains_fragment_def by blast
    qed
  qed
  with Cons show ?case by simp
qed

lemma traverse_preorder: "traverse callback obj s = fold callback (preorder obj) s"
proof (induction callback obj s rule: traverse.induct)
  case (1 callback im nm mat g mw cs s)
  have "fold (\<lambda>c. traverse callback c) ds t = fold callback (concat (map preorder ds)) t"
    if "set ds \<subseteq> set cs" for ds t
    using that
  proof (induction ds arbitrary: t)
    case Nil
    show ?case by simp
  next
    case (Cons d ds)
    from Cons.prems have "d \<in> set cs" "set ds \<subseteq> set cs" by auto
    with Cons.IH "1.IH" show ?case by simp
  qed
  then show ?case by simp
qed

lemma fold_last_match:
  "fold (\<lambda>obj targetMesh. if P obj then Some obj else targetMesh) xs acc =
     (if filter P xs = [] then acc else Some (last (filter P xs)))"
  by (induction xs arbitrary: acc) auto

text \<open>
  C5. The locator returns the last mesh, in depth-first visiting order, whose name
  contains the fragment, and null when there is none; in particular it returns null when
  no node's name contains the fragment.
\<close>

theorem findMeshInModel_last_match:
  "findMeshInModel model nm =
     (let matches = filter (\<lambda>obj. isMesh obj \<and> contains_fragment (name obj) nm) (preorder model)
      in if matches = [] then None else Some (last matches))
   \<and> ((\<forall>obj \<in> set (preorder model). \<not> contains_fragment (name obj) nm)
        \<longrightarrow> findMeshInModel model nm = None)"
proof -
  have main: "findMeshInModel model nm =
     (let matches = filter (\<lambda>obj. isMesh obj \<and> contains_fragment (name obj) nm) (preorder model)
      in if matches = [] then None else Some (last matches))"
    by (simp add: findMeshInModel_def traverse_preorder fold_last_match includes_s_iff Let_def)
  have none: "(\<forall>obj \<in> set (preorder model). \<not> contains_fragment (name obj) nm)
        \<longrightarrow> findMeshInModel model nm = None"
    unfolding main by (simp add: Let_def filter_empty_conv)
  from main none show ?thesis by blast
qed

theorem findMeshInModel_last_match_witness:
  "\<not> (\<exists>obj \<in> set (preorder deck_graph). contains_fragment (name obj) ''truck'')
   \<and> findMeshInModel deck_graph ''truck'' = None
   \<and> findMeshInModel deck_graph ''top_sticker'' = Some (mesh_named ''top_sticker_L'' 2)
   \<and> findMeshInModel deck_graph ''sticker'' = Some (mesh_named ''bottom_sticker'' 3)"
proof -
  have h: "\<forall>obj \<in> set (preorder deck_graph). \<not> contains_fragment (name obj) ''truck''"
    by (simp add: deck_graph_def mesh_named_def includes_s_iff[symmetric])
  have top: "findMeshInModel deck_graph ''top_sticker'' = Some (mesh_named ''top_sticker_L'' 2)"
    by (simp add: findMeshInModel_def deck_graph_def mesh_named_def)
  have last: "findMeshInModel deck_graph ''sticker'' = Some (mesh_named ''bottom_sticker'' 3)"
    by (simp add: findMeshInModel_def deck_graph_def mesh_named_def)
  from findMeshInModel_last_match[of deck_graph "''truck''"] h top last
  show ?thesis by blast
qed

section \<open>Texture transforms\<close>

lemma cos_sin_quarter_turn: "cos (pi / 2) = 0" "sin (pi / 2) = 1"
  by simp_all

lemma bottomMatrix_identity:
  "bottomMatrix identity_m3 = set_m3 0 1.01 (- 0.005) (- 4.1) 0 2.095 0 0 1"
  by (simp add: bottomMatrix_def translate_def rotate_m3_def scale_m3_def premultiply_m3_def
      multiplyMatrices_m3_def makeTranslation_m3_def makeRotation_m3_def makeScale_m3_def
      identity_m3_def set_m3_def Let_def)

lemma applied_texture:
  "map_texture (materials (loadTextureFromUrl (Resolved texture) mref isBottom st) mref) =
     Some (texture\<lparr>colorSpace := SRGBColorSpace, wrapS := ClampToEdgeWrapping,
                   wrapT := ClampToEdgeWrapping, matrixAutoUpdate := False,
                   matrix := (if isBottom then bottomMatrix identity_m3 else topMatrix),
                   center := vec2 0.5 0.5, version_t := Suc (version_t texture)\<rparr>)"
  by (simp add: loadTextureFromUrl_def Let_def)

text \<open>
  C1. For every texture applied to the bottom sticker surface, the matrix the renderer
  uploads is the identity composed, in this order, with translate (-0.5, -0.5), rotate
  \<open>\<pi>/2\<close>, scale (1.01, 4.1), translate (0.5, 0.045). Its entries are given; composing the
  same four steps in the reverse order gives another matrix.
\<close>

theorem bottom_uv_transform_order:
  "\<exists>t. map_texture (materials (loadTextureFromUrl (Resolved texture) mref True st) mref) = Some t
      \<and> rendererUvTransform t =
          translate (scale_m3 (rotate_m3 (translate identity_m3 (- 0.5) (- 0.5)) (pi / 2)) 1.01 4.1)
            0.5 0.045
      \<and> rendererUvTransform t = set_m3 0 1.01 (- 0.005) (- 4.1) 0 2.095 0 0 1
      \<and> rendererUvTransform t \<noteq>
          translate (rotate_m3 (scale_m3 (translate identity_m3 0.5 0.045) 1.01 4.1) (pi / 2))
            (- 0.5) (- 0.5)"
proof -
  let ?t = "texture\<lparr>colorSpace := SRGBColorSpace, wrapS := ClampToEdgeWrapping,
                   wrapT := ClampToEdgeWrapping, matrixAutoUpdate := False,
                   matrix := bottomMatrix identity_m3,
                   center := vec2 0.5 0.5, version_t := Suc (version_t texture)\<rparr>"
  have stored: "map_texture (materials (loadTextureFromUrl (Resolved texture) mref True st) mref)
      = Some ?t"
    using applied_texture[of texture mref True st] by simp
  have handed: "rendererUvTransform ?t = bottomMatrix identity_m3"
    by (simp add: rendererUvTransform_def)
  have composed: "bottomMatrix identity_m3 =
      translate (scale_m3 (rotate_m3 (translate identity_m3 (- 0.5) (- 0.5)) (pi / 2)) 1.01 4.1)
        0.5 0.045"
    by (simp add: bottomMatrix_def Let_def)
  have reversed: "translate (rotate_m3 (scale_m3 (translate identity_m3 0.5 0.045) 1.01 4.1) (pi / 2))
            (- 0.5) (- 0.5) = set_m3 0 4.1 (- 0.3155) (- 1.01) 0 (- 1.005) 0 0 1"
    by (simp add: translate_def rotate_m3_def scale_m3_def premultiply_m3_def
      multiplyMatrices_m3_def makeTranslation_m3_def makeRotation_m3_def makeScale_m3_def
      identity_m3_def set_m3_def Let_def)
  have differ: "bottomMatrix identity_m3 \<noteq> set_m3 0 4.1 (- 0.3155) (- 1.01) 0 (- 1.005) 0 0 1"
    by (simp add: bottomMatrix_identity set_m3_def)
  show ?thesis
    using stored handed composed bottomMatrix_identity reversed differ by (metis (no_types))
qed

lemma topMatrix_entries: "topMatrix = set_m3 0 1.01 (- 0.01) (- 3.735) 0 1 0 0 1"
  by (simp add: topMatrix_def setUvTransform_def set_m3_def Let_def)

lemma setUvTransform_pivot:
  "applyMatrix3 (vec2 cx cy) (setUvTransform tx ty sx sy r cx cy) = vec2 (cx + tx) (cy + ty)"
  by (simp add: applyMatrix3_def setUvTransform_def set_m3_def vec2_def Let_def algebra_simps)

text \<open>
  C2 as stated fails: the top-surface matrix does not fix the pivot (0.5, 0.5).
\<close>

theorem top_uv_pivot_counterexample:
  "applyMatrix3 (vec2 0.5 0.5)
     (setUvTransform (0.5 - 1.01 / 2) (0.5 - 3.735 / 2) 1.01 3.735 (pi / 2) 0.5 0.5)
   \<noteq> vec2 0.5 0.5"
proof -
  have image: "applyMatrix3 (vec2 0.5 0.5)
      (setUvTransform (0.5 - 1.01 / 2) (0.5 - 3.735 / 2) 1.01 3.735 (pi / 2) 0.5 0.5)
      = vec2 (0.5 + (0.5 - 1.01 / 2)) (0.5 + (0.5 - 3.735 / 2))"
    by (rule setUvTransform_pivot)
  show ?thesis unfolding image by (simp add: vec2_def)
qed

text \<open>
  C2, amended. \<open>setUvTransform\<close> sends its pivot to the pivot moved by the offset, so the
  matrix the renderer uploads for a texture applied to the top surface, which is
  \<open>setUvTransform(0.5 - 1.01/2, 0.5 - 3.735/2, 1.01, 3.735, \<pi>/2, 0.5, 0.5)\<close>, maps
  (0.5, 0.5) to (0.495, -0.8675).
\<close>

theorem top_uv_pivot_image:
  "\<exists>t. map_texture (materials (loadTextureFromUrl (Resolved texture) mref False st) mref) = Some t
      \<and> rendererUvTransform t =
          setUvTransform (0.5 - 1.01 / 2) (0.5 - 3.735 / 2) 1.01 3.735 (pi / 2) 0.5 0.5
      \<and> applyMatrix3 (vec2 0.5 0.5) (rendererUvTransform t) =
          vec2 (0.5 + (0.5 - 1.01 / 2)) (0.5 + (0.5 - 3.735 / 2))
      \<and> applyMatrix3 (vec2 0.5 0.5) (rendererUvTransform t) = vec2 0.495 (- 0.8675)"
proof -
  let ?t = "texture\<lparr>colorSpace := SRGBColorSpace, wrapS := ClampToEdgeWrapping,
                   wrapT := ClampToEdgeWrapping, matrixAutoUpdate := False,
                   matrix := topMatrix,
                   center := vec2 0.5 0.5, version_t := Suc (version_t texture)\<rparr>"
  have stored: "map_texture (materials (loadTextureFromUrl (Resolved texture) mref False st) mref)
      = Some ?t"
    using applied_texture[of texture mref False st] by simp
  have handed: "rendererUvTransform ?t =
      setUvTransform (0.5 - 1.01 / 2) (0.5 - 3.735 / 2) 1.01 3.735 (pi / 2) 0.5 0.5"
    by (simp add: rendererUvTransform_def topMatrix_def Let_def)
  have image: "applyMatrix3 (vec2 0.5 0.5)
      (setUvTransform (0.5 - 1.01 / 2) (0.5 - 3.735 / 2) 1.01 3.735 (pi / 2) 0.5 0.5)
      = vec2 (0.5 + (0.5 - 1.01 / 2)) (0.5 + (0.5 - 3.735 / 2))"
    by (rule setUvTransform_pivot)
  have number: "vec2 (0.5 + (0.5 - 1.01 / 2)) (0.5 + (0.5 - 3.735 / 2)) = vec2 0.495 (- 0.8675)"
    by (simp add: vec2_def)
  show ?thesis
    using stored handed image number by (metis (no_types))
qed

section \<open>Loading a model\<close>

lemma deck_graph_meshes:
  "findMeshInModel deck_graph ''base'' = Some (mesh_named ''base_mesh'' 1)"
  "findMeshInModel deck_graph ''top_sticker'' = Some (mesh_named ''top_sticker_L'' 2)"
  "findMeshInModel deck_graph ''bottom_sticker'' = Some (mesh_named ''bottom_sticker'' 3)"
  by (simp_all add: findMeshInModel_def deck_graph_def mesh_named_def)

lemma deck_without_bottom_meshes:
  "findMeshInModel (object deck_without_bottom) ''bottom_sticker'' = None"
  by (simp add: findMeshInModel_def deck_without_bottom_def deck_model_def mesh_named_def)

lemma begin_ready:
  assumes "sceneRef st = Some cs" "rendererReady st"
  shows "\<exists>st1. loadSkateboardModel_begin st = (st1, True)
           \<and> modelRef st1 = None \<and> error st1 = None
           \<and> sceneRef st1 = Some (case modelRef st of None \<Rightarrow> cs
                                    | Some old \<Rightarrow> remove_child (uuid old) cs)"
  using assms by (cases "modelRef st") (simp_all add: loadSkateboardModel_begin_def Let_def)

lemma resume_missing:
  assumes "findMeshInModel (object g) ''base'' = None
         \<or> findMeshInModel (object g) ''top_sticker'' = None
         \<or> findMeshInModel (object g) ''bottom_sticker'' = None"
  shows "loadSkateboardModel_resume (Resolved g) st1 =
           st1\<lparr>error := Some (ModelLoadFailed MissingMeshes), modelLoading := False\<rparr>"
  using assms
  by (auto simp: loadSkateboardModel_resume_def Let_def split: option.splits)

text \<open>
  C8. When the loaded model lacks a mesh whose name contains "base", "top_sticker" or
  "bottom_sticker", the load (on an initialised scene) ends with the component's
  missing-mesh error message, the model reference is null, and the scene's children are
  the old ones without the previous model: nothing was added.
\<close>

theorem load_missing_mesh_fails:
  assumes "sceneRef st = Some cs" and "rendererReady st"
    and "findMeshInModel (object g) ''base'' = None
         \<or> findMeshInModel (object g) ''top_sticker'' = None
         \<or> findMeshInModel (object g) ''bottom_sticker'' = None"
  shows "error (loadSkateboardModel (Resolved g) st) = Some (ModelLoadFailed MissingMeshes)
       \<and> modelRef (loadSkateboardModel (Resolved g) st) = None
       \<and> sceneRef (loadSkateboardModel (Resolved g) st) =
           Some (case modelRef st of None \<Rightarrow> cs | Some old \<Rightarrow> remove_child (uuid old) cs)
       \<and> set (the (sceneRef (loadSkateboardModel (Resolved g) st))) \<subseteq> set cs
       \<and> \<not> modelLoading (loadSkateboardModel (Resolved g) st)"
proof -
  from begin_ready[OF assms(1,2)] obtain st1 where
    b: "loadSkateboardModel_begin st = (st1, True)" and
    m: "modelRef st1 = None" and
    s: "sceneRef st1 = Some (case modelRef st of None \<Rightarrow> cs
                             | Some old \<Rightarrow> remove_child (uuid old) cs)"
    by blast
  have r: "loadSkateboardModel (Resolved g) st =
      st1\<lparr>error := Some (ModelLoadFailed MissingMeshes), modelLoading := False\<rparr>"
    using b resume_missing[OF assms(3)] by (simp add: loadSkateboardModel_def)
  have sub: "set (case modelRef st of None \<Rightarrow> cs | Some old \<Rightarrow> remove_child (uuid old) cs)
      \<subseteq> set cs"
    by (cases "modelRef st") (simp_all add: remove_child_def set_remove1_subset)
  show ?thesis unfolding r using m s sub by simp
qed

theorem load_missing_mesh_fails_witness:
  "sceneRef ready_state = Some [101, 102, 103] \<and> rendererReady ready_state
   \<and> findMeshInModel (object deck_without_bottom) ''bottom_sticker'' = None
   \<and> error (loadSkateboardModel (Resolved deck_without_bottom) ready_state)
       = Some (ModelLoadFailed MissingMeshes)
   \<and> modelRef (loadSkateboardModel (Resolved deck_without_bottom) ready_state) = None
   \<and> sceneRef (loadSkateboardModel (Resolved deck_without_bottom) ready_state)
       = Some [101, 102, 103]"
proof -
  have h1: "sceneRef ready_state = Some [101, 102, 103]" by (simp add: ready_state_def)
  have h2: "rendererReady ready_state" by (simp add: ready_state_def)
  have h3: "findMeshInModel (object deck_without_bottom) ''base'' = None
         \<or> findMeshInModel (object deck_without_bottom) ''top_sticker'' = None
         \<or> findMeshInModel (object deck_without_bottom) ''bottom_sticker'' = None"
    using deck_without_bottom_meshes by simp
  have none: "modelRef ready_state = None" by (simp add: ready_state_def)
  from load_missing_mesh_fails[OF h1 h2 h3] h1 h2 deck_without_bottom_meshes none
  show ?thesis by simp
qed

lemma resume_no_error:
  assumes "error (loadSkateboardModel_resume outcome st1) = None"
  shows "\<exists>g base_m top_m bottom_m cs.
           outcome = Resolved g
         \<and> findMeshInModel (object g) ''base'' = Some base_m
         \<and> findMeshInModel (object g) ''top_sticker'' = Some top_m
         \<and> findMeshInModel (object g) ''bottom_sticker'' = Some bottom_m
         \<and> sceneRef st1 = Some cs"
  using assms
  by (auto simp: loadSkateboardModel_resume_def Let_def split: Outcome.splits option.splits)

lemma resume_success:
  assumes "findMeshInModel (object g) ''base'' = Some base_m"
    and "findMeshInModel (object g) ''top_sticker'' = Some top_m"
    and "findMeshInModel (object g) ''bottom_sticker'' = Some bottom_m"
    and "sceneRef st1 = Some cs"
  shows "\<exists>m. modelRef (loadSkateboardModel_resume (Resolved g) st1) = Some m
           \<and> object m = object g
           \<and> topStickerMaterial m = Some (material top_m)
           \<and> bottomStickerMaterial m = Some (material bottom_m)
           \<and> materials (loadSkateboardModel_resume (Resolved g) st1) (material top_m)
               = setStickerMaterial (materials st1 (material top_m))
           \<and> materials (loadSkateboardModel_resume (Resolved g) st1) (material bottom_m)
               = setStickerMaterial (materials st1 (material bottom_m))
           \<and> sceneRef (loadSkateboardModel_resume (Resolved g) st1)
               = Some (add_child (uuid g) cs)"
  using assms
  by (simp add: loadSkateboardModel_resume_def Let_def setStickerMaterial_def)

lemma begin_refused:
  assumes "loadSkateboardModel_begin st = (st1, False)"
  shows "error st1 = Some SceneNotInitialised"
  using assms
  by (auto simp: loadSkateboardModel_begin_def Let_def split: if_splits)

lemma textured_opacity:
  "opacity (materials (loadTextureFromUrl (Resolved texture) mref isBottom st) mref) = 1"
  by (simp add: loadTextureFromUrl_def Let_def)

text \<open>
  C9. After a load that ends without an error message, the model reference holds the
  model, its top-sticker and bottom-sticker materials are those of the meshes the locator
  finds, and both are fully transparent: opacity 0 with the transparent flag set. After a
  texture has been applied to a material, that material's opacity is 1.
\<close>

theorem sticker_materials_opacity:
  "(error (loadSkateboardModel outcome st) = None \<longrightarrow>
      (\<exists>m top_m bottom_m.
          modelRef (loadSkateboardModel outcome st) = Some m
        \<and> findMeshInModel (object m) ''top_sticker'' = Some top_m
        \<and> findMeshInModel (object m) ''bottom_sticker'' = Some bottom_m
        \<and> topStickerMaterial m = Some (material top_m)
        \<and> bottomStickerMaterial m = Some (material bottom_m)
        \<and> opacity (materials (loadSkateboardModel outcome st) (material top_m)) = 0
        \<and> transparent (materials (loadSkateboardModel outcome st) (material top_m))
        \<and> opacity (materials (loadSkateboardModel outcome st) (material bottom_m)) = 0
        \<and> transparent (materials (loadSkateboardModel outcome st) (material bottom_m))))
   \<and> opacity (materials (loadTextureFromUrl (Resolved texture) mref isBottom st2) mref) = 1"
proof -
  have loaded: "\<exists>m top_m bottom_m.
          modelRef (loadSkateboardModel outcome st) = Some m
        \<and> findMeshInModel (object m) ''top_sticker'' = Some top_m
        \<and> findMeshInModel (object m) ''bottom_sticker'' = Some bottom_m
        \<and> topStickerMaterial m = Some (material top_m)
        \<and> bottomStickerMaterial m = Some (material bottom_m)
        \<and> opacity (materials (loadSkateboardModel outcome st) (material top_m)) = 0
        \<and> transparent (materials (loadSkateboardModel outcome st) (material top_m))
        \<and> opacity (materials (loadSkateboardModel outcome st) (material bottom_m)) = 0
        \<and> transparent (materials (loadSkateboardModel outcome st) (material bottom_m))"
    if ok: "error (loadSkateboardModel outcome st) = None"
  proof -
    obtain st1 go where b: "loadSkateboardModel_begin st = (st1, go)"
      by (cases "loadSkateboardModel_begin st") auto
    have go: "go"
    proof (rule ccontr)
      assume "\<not> go"
      with b have "loadSkateboardModel_begin st = (st1, False)" by simp
      from begin_refused[OF this] ok b \<open>\<not> go\<close> show False
        by (simp add: loadSkateboardModel_def)
    qed
    with b have run: "loadSkateboardModel outcome st = loadSkateboardModel_resume outcome st1"
      by (simp add: loadSkateboardModel_def)
    from ok run have "error (loadSkateboardModel_resume outcome st1) = None" by simp
    from resume_no_error[OF this] obtain g base_m top_m bottom_m cs where
      o: "outcome = Resolved g" and
      f: "findMeshInModel (object g) ''base'' = Some base_m"
         "findMeshInModel (object g) ''top_sticker'' = Some top_m"
         "findMeshInModel (object g) ''bottom_sticker'' = Some bottom_m" and
      s: "sceneRef st1 = Some cs"
      by blast
    from resume_success[OF f s] obtain m where
      m: "modelRef (loadSkateboardModel_resume (Resolved g) st1) = Some m"
         "object m = object g"
         "topStickerMaterial m = Some (material top_m)"
         "bottomStickerMaterial m = Some (material bottom_m)"
         "materials (loadSkateboardModel_resume (Resolved g) st1) (material top_m)
               = setStickerMaterial (materials st1 (material top_m))"
         "materials (loadSkateboardModel_resume (Resolved g) st1) (material bottom_m)
               = setStickerMaterial (materials st1 (material bottom_m))"
      by blast
    have clear: "opacity (setStickerMaterial x) = 0" "transparent (setStickerMaterial x)" for x
      by (simp_all add: setStickerMaterial_def)
    from run o have run': "loadSkateboardModel (Resolved g) st
        = loadSkateboardModel_resume (Resolved g) st1"
      by simp
    show ?thesis
      unfolding o run' using m f clear by auto
  qed
  from loaded textured_opacity show ?thesis by blast
qed

theorem sticker_materials_opacity_witness:
  "error (loadSkateboardModel (Resolved deck_model) ready_state) = None
   \<and> opacity (materials (loadSkateboardModel (Resolved deck_model) ready_state) 2) = 0
   \<and> transparent (materials (loadSkateboardModel (Resolved deck_model) ready_state) 2)
   \<and> opacity (materials (loadSkateboardModel (Resolved deck_model) ready_state) 3) = 0
   \<and> transparent (materials (loadSkateboardModel (Resolved deck_model) ready_state) 3)
   \<and> opacity (materials
        (loadTextureFromUrl (Resolved new_texture) 2 False
           (loadSkateboardModel (Resolved deck_model) ready_state)) 2) = 1"
proof -
  let ?st = "loadSkateboardModel (Resolved deck_model) ready_state"
  have b: "loadSkateboardModel_begin ready_state = (ready_state\<lparr>modelLoading := True\<rparr>, True)"
    by (simp add: loadSkateboardModel_begin_def ready_state_def Let_def)
  have ok: "error ?st = None"
    by (simp add: loadSkateboardModel_def b loadSkateboardModel_resume_def Let_def
        deck_model_def deck_graph_meshes) (simp add: ready_state_def)
  have obj: "object m = deck_graph" if "modelRef ?st = Some m" for m
    using that
    by (simp add: loadSkateboardModel_def b loadSkateboardModel_resume_def Let_def
        deck_model_def deck_graph_meshes) (auto simp: ready_state_def)
  from sticker_materials_opacity[of "Resolved deck_model" ready_state new_texture 2 False ?st] ok
  obtain m top_m bottom_m where
    m: "modelRef ?st = Some m"
       "findMeshInModel (object m) ''top_sticker'' = Some top_m"
       "findMeshInModel (object m) ''bottom_sticker'' = Some bottom_m"
       "opacity (materials ?st (material top_m)) = 0"
       "transparent (materials ?st (material top_m))"
       "opacity (materials ?st (material bottom_m)) = 0"
       "transparent (materials ?st (material bottom_m))" and
    t: "opacity (materials (loadTextureFromUrl (Resolved new_texture) 2 False ?st) 2) = 1"
    by blast
  from m(1,2,3) obj deck_graph_meshes have "material top_m = 2" "material bottom_m = 3"
    by (auto simp: mesh_named_def)
  with m ok t show ?thesis by simp
qed

section \<open>Camera locomotion\<close>







lemma normalizeDivisor_nonzero: "normalizeDivisor v \<noteq> 0"
  by (simp add: normalizeDivisor_def)






section \<open>Flipping the model\<close>

lemma unit_axis_length:
  assumes "unit_q q"
  shows "length_v (applyQuaternion (vec3 1 0 0) q) = 1"
    and "length_v (applyQuaternion (vec3 0 1 0) q) = 1"
    and "length_v (applyQuaternion (vec3 0 0 1) q) = 1"
proof -
  have n: "qx q * qx q + qy q * qy q + qz q * qz q + qw q * qw q = 1"
    using assms by (simp add: unit_q_def)
  have "vx (applyQuaternion (vec3 1 0 0) q) * vx (applyQuaternion (vec3 1 0 0) q)
      + vy (applyQuaternion (vec3 1 0 0) q) * vy (applyQuaternion (vec3 1 0 0) q)
      + vz (applyQuaternion (vec3 1 0 0) q) * vz (applyQuaternion (vec3 1 0 0) q) = 1"
    using n by (simp add: applyQuaternion_def vec3_def Let_def) algebra
  then show "length_v (applyQuaternion (vec3 1 0 0) q) = 1" by (simp add: length_v_def)
  have "vx (applyQuaternion (vec3 0 1 0) q) * vx (applyQuaternion (vec3 0 1 0) q)
      + vy (applyQuaternion (vec3 0 1 0) q) * vy (applyQuaternion (vec3 0 1 0) q)
      + vz (applyQuaternion (vec3 0 1 0) q) * vz (applyQuaternion (vec3 0 1 0) q) = 1"
    using n by (simp add: applyQuaternion_def vec3_def Let_def) algebra
  then show "length_v (applyQuaternion (vec3 0 1 0) q) = 1" by (simp add: length_v_def)
  have "vx (applyQuaternion (vec3 0 0 1) q) * vx (applyQuaternion (vec3 0 0 1) q)
      + vy (applyQuaternion (vec3 0 0 1) q) * vy (applyQuaternion (vec3 0 0 1) q)
      + vz (applyQuaternion (vec3 0 0 1) q) * vz (applyQuaternion (vec3 0 0 1) q) = 1"
    using n by (simp add: applyQuaternion_def vec3_def Let_def) algebra
  then show "length_v (applyQuaternion (vec3 0 0 1) q) = 1" by (simp add: length_v_def)
qed

lemma normalize_unit: "length_v v = 1 \<Longrightarrow> normalize v = v"
  by (cases v) (simp add: normalize_def normalizeDivisor_def divideScalar_def
      multiplyScalar_def vec3_def)

text \<open>The half turn about the model's own axis, applied after the model's rotation, is the
  rotation of the quaternion followed by the half turn about the principal axis.\<close>

lemma flip_matrix:
  assumes "unit_q q"
  shows "premultiply_m4 (compose (vec3 0 0 0) q (vec3 1 1 1))
           (makeRotationAxis (applyQuaternion (vec3 1 0 0) q) pi)
         = compose (vec3 0 0 0) (half_turn AxisX q) (vec3 1 1 1)"
    and "premultiply_m4 (compose (vec3 0 0 0) q (vec3 1 1 1))
           (makeRotationAxis (applyQuaternion (vec3 0 1 0) q) pi)
         = compose (vec3 0 0 0) (half_turn AxisY q) (vec3 1 1 1)"
    and "premultiply_m4 (compose (vec3 0 0 0) q (vec3 1 1 1))
           (makeRotationAxis (applyQuaternion (vec3 0 0 1) q) pi)
         = compose (vec3 0 0 0) (half_turn AxisZ q) (vec3 1 1 1)"
proof -
  have n: "qx q * qx q + qy q * qy q + qz q * qz q + qw q * qw q = 1"
    using assms by (simp add: unit_q_def)
  show "premultiply_m4 (compose (vec3 0 0 0) q (vec3 1 1 1))
           (makeRotationAxis (applyQuaternion (vec3 1 0 0) q) pi)
         = compose (vec3 0 0 0) (half_turn AxisX q) (vec3 1 1 1)"
    using n
    apply (simp add: premultiply_m4_def multiplyMatrices_m4_def compose_def makeRotationAxis_def
        applyQuaternion_def half_turn_def set_m4_def vec3_def Let_def)
    apply (intro conjI)
    apply algebra+
    done
  show "premultiply_m4 (compose (vec3 0 0 0) q (vec3 1 1 1))
           (makeRotationAxis (applyQuaternion (vec3 0 1 0) q) pi)
         = compose (vec3 0 0 0) (half_turn AxisY q) (vec3 1 1 1)"
    using n
    apply (simp add: premultiply_m4_def multiplyMatrices_m4_def compose_def makeRotationAxis_def
        applyQuaternion_def half_turn_def set_m4_def vec3_def Let_def)
    apply (intro conjI)
    apply algebra+
    done
  show "premultiply_m4 (compose (vec3 0 0 0) q (vec3 1 1 1))
           (makeRotationAxis (applyQuaternion (vec3 0 0 1) q) pi)
         = compose (vec3 0 0 0) (half_turn AxisZ q) (vec3 1 1 1)"
    using n
    apply (simp add: premultiply_m4_def multiplyMatrices_m4_def compose_def makeRotationAxis_def
        applyQuaternion_def half_turn_def set_m4_def vec3_def Let_def)
    apply (intro conjI)
    apply algebra+
    done
qed

lemma compose_entries:
  "m11 (compose pos p (vec3 1 1 1)) = 1 - 2 * (qy p * qy p + qz p * qz p)"
  "m22 (compose pos p (vec3 1 1 1)) = 1 - 2 * (qx p * qx p + qz p * qz p)"
  "m33 (compose pos p (vec3 1 1 1)) = 1 - 2 * (qx p * qx p + qy p * qy p)"
  "m12 (compose pos p (vec3 1 1 1)) = 2 * (qx p * qy p - qw p * qz p)"
  "m21 (compose pos p (vec3 1 1 1)) = 2 * (qx p * qy p + qw p * qz p)"
  "m13 (compose pos p (vec3 1 1 1)) = 2 * (qx p * qz p + qw p * qy p)"
  "m31 (compose pos p (vec3 1 1 1)) = 2 * (qx p * qz p - qw p * qy p)"
  "m23 (compose pos p (vec3 1 1 1)) = 2 * (qy p * qz p - qw p * qx p)"
  "m32 (compose pos p (vec3 1 1 1)) = 2 * (qy p * qz p + qw p * qx p)"
  "m14 (compose pos p (vec3 1 1 1)) = vx pos"
  "m24 (compose pos p (vec3 1 1 1)) = vy pos"
  "m34 (compose pos p (vec3 1 1 1)) = vz pos"
  "m41 (compose pos p (vec3 1 1 1)) = 0"
  "m42 (compose pos p (vec3 1 1 1)) = 0"
  "m43 (compose pos p (vec3 1 1 1)) = 0"
  "m44 (compose pos p (vec3 1 1 1)) = 1"
  by (simp_all add: compose_def set_m4_def vec3_def Let_def algebra_simps)


text \<open>A matrix composed from a unit quaternion and unit scale has columns of length 1
  and determinant 1, so \<open>decompose\<close> divides by 1 and reads the quaternion off the matrix
  itself.\<close>

lemma compose_columns:
  assumes "unit_q p"
  shows "length_v (vec3 (m11 (compose pos p (vec3 1 1 1))) (m21 (compose pos p (vec3 1 1 1)))
                        (m31 (compose pos p (vec3 1 1 1)))) = 1"
    and "length_v (vec3 (m12 (compose pos p (vec3 1 1 1))) (m22 (compose pos p (vec3 1 1 1)))
                        (m32 (compose pos p (vec3 1 1 1)))) = 1"
    and "length_v (vec3 (m13 (compose pos p (vec3 1 1 1))) (m23 (compose pos p (vec3 1 1 1)))
                        (m33 (compose pos p (vec3 1 1 1)))) = 1"
    and "determinant (compose pos p (vec3 1 1 1)) = 1"
proof -
  have n: "qx p * qx p + qy p * qy p + qz p * qz p + qw p * qw p = 1"
    using assms by (simp add: unit_q_def)
  have c1: "(1 - 2 * (qy p * qy p + qz p * qz p)) * (1 - 2 * (qy p * qy p + qz p * qz p))
      + 2 * (qx p * qy p + qw p * qz p) * (2 * (qx p * qy p + qw p * qz p))
      + 2 * (qx p * qz p - qw p * qy p) * (2 * (qx p * qz p - qw p * qy p)) = 1"
    using n by algebra
  have c2: "2 * (qx p * qy p - qw p * qz p) * (2 * (qx p * qy p - qw p * qz p))
      + (1 - 2 * (qx p * qx p + qz p * qz p)) * (1 - 2 * (qx p * qx p + qz p * qz p))
      + 2 * (qy p * qz p + qw p * qx p) * (2 * (qy p * qz p + qw p * qx p)) = 1"
    using n by algebra
  have c3: "2 * (qx p * qz p + qw p * qy p) * (2 * (qx p * qz p + qw p * qy p))
      + 2 * (qy p * qz p - qw p * qx p) * (2 * (qy p * qz p - qw p * qx p))
      + (1 - 2 * (qx p * qx p + qy p * qy p)) * (1 - 2 * (qx p * qx p + qy p * qy p)) = 1"
    using n by algebra
  show "length_v (vec3 (m11 (compose pos p (vec3 1 1 1))) (m21 (compose pos p (vec3 1 1 1)))
                        (m31 (compose pos p (vec3 1 1 1)))) = 1"
    unfolding compose_entries using c1 by (simp add: length_v_def vec3_def)
  show "length_v (vec3 (m12 (compose pos p (vec3 1 1 1))) (m22 (compose pos p (vec3 1 1 1)))
                        (m32 (compose pos p (vec3 1 1 1)))) = 1"
    unfolding compose_entries using c2 by (simp add: length_v_def vec3_def)
  show "length_v (vec3 (m13 (compose pos p (vec3 1 1 1))) (m23 (compose pos p (vec3 1 1 1)))
                        (m33 (compose pos p (vec3 1 1 1)))) = 1"
    unfolding compose_entries using c3 by (simp add: length_v_def vec3_def)
  have "determinant (compose pos p (vec3 1 1 1)) =
      - (2 * (qx p * qz p + qw p * qy p)) * (1 - 2 * (qx p * qx p + qz p * qz p)) * (2 * (qx p * qz p - qw p * qy p))
      - (1 - 2 * (qy p * qy p + qz p * qz p)) * (2 * (qy p * qz p - qw p * qx p)) * (2 * (qy p * qz p + qw p * qx p))
      + (1 - 2 * (qy p * qy p + qz p * qz p)) * (1 - 2 * (qx p * qx p + qz p * qz p)) * (1 - 2 * (qx p * qx p + qy p * qy p))
      + (2 * (qx p * qz p + qw p * qy p)) * (2 * (qx p * qy p + qw p * qz p)) * (2 * (qy p * qz p + qw p * qx p))
      - (2 * (qx p * qy p - qw p * qz p)) * (2 * (qx p * qy p + qw p * qz p)) * (1 - 2 * (qx p * qx p + qy p * qy p))
      + (2 * (qx p * qy p - qw p * qz p)) * (2 * (qy p * qz p - qw p * qx p)) * (2 * (qx p * qz p - qw p * qy p))"
    unfolding determinant_def compose_entries by simp
  also have "\<dots> = 1" using n by algebra
  finally show "determinant (compose pos p (vec3 1 1 1)) = 1" .
qed

lemma decompose_compose:
  assumes "unit_q p"
  shows "decompose (compose pos p (vec3 1 1 1)) =
           (pos, setFromRotationMatrix (compose pos p (vec3 1 1 1)), vec3 1 1 1)"
proof -
  note c = compose_columns[OF assms, of pos]
  have same: "m\<lparr>m11 := m11 m * (1 / 1), m21 := m21 m * (1 / 1), m31 := m31 m * (1 / 1),
               m12 := m12 m * (1 / 1), m22 := m22 m * (1 / 1), m32 := m32 m * (1 / 1),
               m13 := m13 m * (1 / 1), m23 := m23 m * (1 / 1), m33 := m33 m * (1 / 1)\<rparr> = m"
    for m :: Matrix4
    by (cases m) simp
  have pos: "vec3 (m14 (compose pos p (vec3 1 1 1))) (m24 (compose pos p (vec3 1 1 1)))
                  (m34 (compose pos p (vec3 1 1 1))) = pos"
    unfolding compose_entries by (cases pos) (simp add: vec3_def)
  show ?thesis
    unfolding decompose_def Let_def c pos by (simp add: same)
qed

text \<open>Reading the quaternion back from the matrix of a unit quaternion gives that
  quaternion or its opposite, whichever of the four branches runs.\<close>

lemma sqrt_four_squares: "sqrt (4 * (a * a)) = 2 * \<bar>a\<bar>"
proof -
  have "sqrt (4 * (a * a)) = sqrt ((2 * a) * (2 * a))" by (simp add: algebra_simps)
  also have "\<dots> = \<bar>2 * a\<bar>" by (rule real_sqrt_abs2)
  finally show ?thesis by (simp add: abs_mult)
qed

lemma setFromRotationMatrix_compose:
  assumes "unit_q p"
  shows "setFromRotationMatrix (compose pos p (vec3 1 1 1)) = p
       \<or> setFromRotationMatrix (compose pos p (vec3 1 1 1)) = negate_q p"
proof -
  obtain x y z w where p: "p = \<lparr>qx = x, qy = y, qz = z, qw = w\<rparr>" by (cases p) auto
  have n: "x * x + y * y + z * z + w * w = 1" using assms p by (simp add: unit_q_def)
  let ?M = "compose pos p (vec3 1 1 1)"
  have tr: "m11 ?M + m22 ?M + m33 ?M + 1 = 4 * (w * w)"
    unfolding compose_entries using n p by simp
  have dx: "1 + m11 ?M - m22 ?M - m33 ?M = 4 * (x * x)"
    and dy: "1 + m22 ?M - m11 ?M - m33 ?M = 4 * (y * y)"
    and dz: "1 + m33 ?M - m11 ?M - m22 ?M = 4 * (z * z)"
    unfolding compose_entries using p by simp_all
  have off: "m32 ?M - m23 ?M = 4 * (w * x)" "m13 ?M - m31 ?M = 4 * (w * y)"
    "m21 ?M - m12 ?M = 4 * (w * z)" "m12 ?M + m21 ?M = 4 * (x * y)"
    "m13 ?M + m31 ?M = 4 * (x * z)" "m23 ?M + m32 ?M = 4 * (y * z)"
    unfolding compose_entries using p by simp_all
  have cmp: "m11 ?M > m22 ?M \<longleftrightarrow> x * x > y * y" "m11 ?M > m33 ?M \<longleftrightarrow> x * x > z * z"
    "m22 ?M > m33 ?M \<longleftrightarrow> y * y > z * z"
    unfolding compose_entries using p by simp_all
  consider (A) "m11 ?M + m22 ?M + m33 ?M > 0"
    | (B) "\<not> m11 ?M + m22 ?M + m33 ?M > 0" "m11 ?M > m22 ?M \<and> m11 ?M > m33 ?M"
    | (C) "\<not> m11 ?M + m22 ?M + m33 ?M > 0" "\<not> (m11 ?M > m22 ?M \<and> m11 ?M > m33 ?M)"
          "m22 ?M > m33 ?M"
    | (D) "\<not> m11 ?M + m22 ?M + m33 ?M > 0" "\<not> (m11 ?M > m22 ?M \<and> m11 ?M > m33 ?M)"
          "\<not> m22 ?M > m33 ?M"
    by blast
  then show ?thesis
  proof cases
    case A
    from A tr have "4 * (w * w) > 1" by linarith
    then have w0: "w \<noteq> 0" by auto
    have r: "setFromRotationMatrix ?M =
        \<lparr>qx = 4 * (w * x) * (0.5 / (2 * \<bar>w\<bar>)), qy = 4 * (w * y) * (0.5 / (2 * \<bar>w\<bar>)),
         qz = 4 * (w * z) * (0.5 / (2 * \<bar>w\<bar>)), qw = 0.25 / (0.5 / (2 * \<bar>w\<bar>))\<rparr>"
      using A by (simp add: setFromRotationMatrix_def Let_def off tr sqrt_four_squares)
    show ?thesis
    proof (cases "w > 0")
      case True
      with r have "setFromRotationMatrix ?M = p" by (simp add: p field_simps)
      then show ?thesis ..
    next
      case False
      with w0 have "w < 0" by simp
      with r have "setFromRotationMatrix ?M = negate_q p"
        by (simp add: p negate_q_def field_simps)
      then show ?thesis ..
    qed
  next
    case B
    from B(2) cmp have "x * x > y * y" by simp
    moreover have "y * y \<ge> 0" by simp
    ultimately have "x * x > 0" by linarith
    then have x0: "x \<noteq> 0" by auto
    have r: "setFromRotationMatrix ?M =
        \<lparr>qx = 0.25 * (2 * (2 * \<bar>x\<bar>)), qy = 4 * (x * y) / (2 * (2 * \<bar>x\<bar>)),
         qz = 4 * (x * z) / (2 * (2 * \<bar>x\<bar>)), qw = 4 * (w * x) / (2 * (2 * \<bar>x\<bar>))\<rparr>"
      using B by (simp add: setFromRotationMatrix_def Let_def off dx sqrt_four_squares)
    show ?thesis
    proof (cases "x > 0")
      case True
      with r have "setFromRotationMatrix ?M = p" by (simp add: p field_simps)
      then show ?thesis ..
    next
      case False
      with x0 have "x < 0" by simp
      with r have "setFromRotationMatrix ?M = negate_q p"
        by (simp add: p negate_q_def field_simps)
      then show ?thesis ..
    qed
  next
    case C
    from C(3) cmp have "y * y > z * z" by simp
    moreover have "z * z \<ge> 0" by simp
    ultimately have "y * y > 0" by linarith
    then have y0: "y \<noteq> 0" by auto
    have r: "setFromRotationMatrix ?M =
        \<lparr>qx = 4 * (x * y) / (2 * (2 * \<bar>y\<bar>)), qy = 0.25 * (2 * (2 * \<bar>y\<bar>)),
         qz = 4 * (y * z) / (2 * (2 * \<bar>y\<bar>)), qw = 4 * (w * y) / (2 * (2 * \<bar>y\<bar>))\<rparr>"
      using C by (simp add: setFromRotationMatrix_def Let_def off dy sqrt_four_squares)
    show ?thesis
    proof (cases "y > 0")
      case True
      with r have "setFromRotationMatrix ?M = p" by (simp add: p field_simps)
      then show ?thesis ..
    next
      case False
      with y0 have "y < 0" by simp
      with r have "setFromRotationMatrix ?M = negate_q p"
        by (simp add: p negate_q_def field_simps)
      then show ?thesis ..
    qed
  next
    case D
    have z0: "z \<noteq> 0"
    proof
      assume z: "z = 0"
      from D(3) cmp have "\<not> y * y > z * z" by simp
      with z have "y * y \<le> 0" by simp
      then have y: "y = 0" by (auto simp: mult_le_0_iff)
      from D(2) cmp have "\<not> (x * x > y * y \<and> x * x > z * z)" by simp
      with y z have "x * x \<le> 0" by simp
      then have x: "x = 0" by (auto simp: mult_le_0_iff)
      from n x y z have "w * w = 1" by simp
      moreover from D(1) tr have "4 * (w * w) \<le> 1" by linarith
      ultimately show False by simp
    qed
    have r: "setFromRotationMatrix ?M =
        \<lparr>qx = 4 * (x * z) / (2 * (2 * \<bar>z\<bar>)), qy = 4 * (y * z) / (2 * (2 * \<bar>z\<bar>)),
         qz = 0.25 * (2 * (2 * \<bar>z\<bar>)), qw = 4 * (w * z) / (2 * (2 * \<bar>z\<bar>))\<rparr>"
      by (simp add: setFromRotationMatrix_def Let_def off dz sqrt_four_squares D)
    show ?thesis
    proof (cases "z > 0")
      case True
      with r have "setFromRotationMatrix ?M = p" by (simp add: p field_simps)
      then show ?thesis ..
    next
      case False
      with z0 have "z < 0" by simp
      with r have "setFromRotationMatrix ?M = negate_q p"
        by (simp add: p negate_q_def field_simps)
      then show ?thesis ..
    qed
  qed
qed

lemma unit_half_turn: "unit_q q \<Longrightarrow> unit_q (half_turn axis q)"
  by (cases axis) (simp_all add: unit_q_def half_turn_def algebra_simps)

lemma unit_negate: "unit_q q \<Longrightarrow> unit_q (negate_q q)"
  by (simp add: unit_q_def negate_q_def)

lemma half_turn_twice: "half_turn axis (half_turn axis q) = negate_q q"
  by (cases axis) (simp_all add: half_turn_def negate_q_def)

lemma half_turn_negate: "half_turn axis (negate_q q) = negate_q (half_turn axis q)"
  by (cases axis) (simp_all add: half_turn_def negate_q_def)

lemma negate_negate: "negate_q (negate_q q) = q"
  by (cases q) (simp add: negate_q_def)

lemma compose_negate: "compose pos (negate_q q) s = compose pos q s"
  by (simp add: compose_def negate_q_def Let_def set_m4_def algebra_simps)

lemma applyQuaternion_negate: "applyQuaternion v (negate_q q) = applyQuaternion v q"
  by (simp add: applyQuaternion_def negate_q_def Let_def vec3_def algebra_simps)

lemma flip_once:
  assumes "modelRef st = Some model" and "unit_q (quaternion model)"
    and "scale model = vec3 1 1 1"
  shows "flipModel axis st =
           st\<lparr>modelRef := Some (model\<lparr>quaternion :=
                  setFromRotationMatrix
                    (compose (vec3 0 0 0) (half_turn axis (quaternion model)) (vec3 1 1 1))\<rparr>),
              error := None\<rparr>"
proof -
  let ?q = "quaternion model"
  let ?e = "case axis of AxisX \<Rightarrow> vec3 1 0 0 | AxisY \<Rightarrow> vec3 0 1 0 | AxisZ \<Rightarrow> vec3 0 0 1"
  have axis_len: "length_v (applyQuaternion ?e ?q) = 1"
    using unit_axis_length[OF assms(2)] by (cases axis) simp_all
  have worldAxis: "normalize (applyQuaternion ?e ?q) = applyQuaternion ?e ?q"
    by (rule normalize_unit[OF axis_len])
  have product: "premultiply_m4 (compose (vec3 0 0 0) ?q (vec3 1 1 1))
           (makeRotationAxis (applyQuaternion ?e ?q) pi)
         = compose (vec3 0 0 0) (half_turn axis ?q) (vec3 1 1 1)"
    using flip_matrix[OF assms(2)] by (cases axis) simp_all
  have read: "decompose (compose (vec3 0 0 0) (half_turn axis ?q) (vec3 1 1 1)) =
      (vec3 0 0 0,
       setFromRotationMatrix (compose (vec3 0 0 0) (half_turn axis ?q) (vec3 1 1 1)),
       vec3 1 1 1)"
    by (rule decompose_compose[OF unit_half_turn[OF assms(2)]])
  have applied: "applyMatrix4_o (model\<lparr>position := vec3 0 0 0\<rparr>)
        (makeRotationAxis (applyQuaternion ?e ?q) pi) =
      model\<lparr>position := vec3 0 0 0,
            quaternion := setFromRotationMatrix
               (compose (vec3 0 0 0) (half_turn axis ?q) (vec3 1 1 1)),
            scale := vec3 1 1 1\<rparr>"
    by (simp add: applyMatrix4_o_def updateMatrix_def assms(3) product read)
  have moved_home: "model\<lparr>position := vec3 0 0 0, quaternion := q', scale := vec3 1 1 1\<rparr>
        \<lparr>position := position model\<rparr> = model\<lparr>quaternion := q'\<rparr>" for q'
    using assms(3) by (cases model) simp
  show ?thesis
    by (simp add: flipModel_def assms(1) Let_def worldAxis applied moved_home)
qed

lemma flip_once_quaternion:
  assumes "modelRef st = Some model" and "unit_q (quaternion model)"
    and "scale model = vec3 1 1 1"
  shows "\<exists>q'. (q' = half_turn axis (quaternion model)
              \<or> q' = negate_q (half_turn axis (quaternion model)))
            \<and> flipModel axis st = st\<lparr>modelRef := Some (model\<lparr>quaternion := q'\<rparr>), error := None\<rparr>"
  using flip_once[OF assms, of axis]
    setFromRotationMatrix_compose[OF unit_half_turn[OF assms(2)], of "vec3 0 0 0" axis]
  by auto

text \<open>
  C4. For a loaded model (unit quaternion and scale (1, 1, 1), as the loader code leaves
  it) and each axis, every flip leaves the position unchanged, and two flips about the
  same axis restore the orientation: the quaternion is the original one or its opposite,
  which is the same rotation, so the model's matrix and the image of every vector are the
  original ones. One flip turns the model by the half turn about its own axis.
\<close>

theorem flip_twice_restores:
  assumes "modelRef st = Some model" and "unit_q (quaternion model)"
    and "scale model = vec3 1 1 1"
  shows "\<exists>m1 m2. modelRef (flipModel axis st) = Some m1
       \<and> modelRef (flipModel axis (flipModel axis st)) = Some m2
       \<and> position m1 = position model \<and> position m2 = position model
       \<and> (quaternion m1 = half_turn axis (quaternion model)
            \<or> quaternion m1 = negate_q (half_turn axis (quaternion model)))
       \<and> (quaternion m2 = quaternion model \<or> quaternion m2 = negate_q (quaternion model))
       \<and> updateMatrix m2 = updateMatrix model
       \<and> (\<forall>v. applyQuaternion v (quaternion m2) = applyQuaternion v (quaternion model))
       \<and> m2 = model\<lparr>quaternion := quaternion m2\<rparr>"
proof -
  let ?q = "quaternion model"
  from flip_once_quaternion[OF assms, of axis] obtain q1 where
    q1: "q1 = half_turn axis ?q \<or> q1 = negate_q (half_turn axis ?q)" and
    f1: "flipModel axis st = st\<lparr>modelRef := Some (model\<lparr>quaternion := q1\<rparr>), error := None\<rparr>"
    by blast
  let ?st1 = "flipModel axis st"
  let ?m1 = "model\<lparr>quaternion := q1\<rparr>"
  have h1: "modelRef ?st1 = Some ?m1" by (simp add: f1)
  have u1: "unit_q (quaternion ?m1)"
    using q1 unit_half_turn[OF assms(2), of axis] unit_negate by auto
  have s1: "scale ?m1 = vec3 1 1 1" using assms(3) by simp
  from flip_once_quaternion[OF h1 u1 s1, of axis] obtain q2 where
    q2: "q2 = half_turn axis q1 \<or> q2 = negate_q (half_turn axis q1)" and
    f2: "flipModel axis ?st1 = ?st1\<lparr>modelRef := Some (?m1\<lparr>quaternion := q2\<rparr>), error := None\<rparr>"
    by auto
  let ?m2 = "model\<lparr>quaternion := q2\<rparr>"
  have h2: "modelRef (flipModel axis ?st1) = Some ?m2" by (simp add: f2)
  have restored: "q2 = ?q \<or> q2 = negate_q ?q"
    using q1 q2 by (auto simp: half_turn_twice half_turn_negate negate_negate)
  have mat: "updateMatrix ?m2 = updateMatrix model"
    using restored by (auto simp: updateMatrix_def compose_negate)
  have act: "\<forall>v. applyQuaternion v q2 = applyQuaternion v ?q"
    using restored by (auto simp: applyQuaternion_negate)
  show ?thesis
    using h1 h2 q1 restored mat act by simp
qed

lemma unit_setFromEuler: "unit_q (setFromEuler a b c)"
proof -
  have i: "sin (a / 2) * sin (a / 2) + cos (a / 2) * cos (a / 2) = 1"
    "sin (b / 2) * sin (b / 2) + cos (b / 2) * cos (b / 2) = 1"
    "sin (c / 2) * sin (c / 2) + cos (c / 2) * cos (c / 2) = 1"
    using sin_cos_squared_add[of "a / 2"] sin_cos_squared_add[of "b / 2"]
      sin_cos_squared_add[of "c / 2"]
    by (simp_all add: power2_eq_square)
  show ?thesis
    using i by (simp add: unit_q_def setFromEuler_def Let_def) algebra
qed

lemma loaded_model_pose:
  assumes "error (loadSkateboardModel outcome st) = None"
  shows "\<exists>m. modelRef (loadSkateboardModel outcome st) = Some m
           \<and> position m = vec3 0 1 0 \<and> scale m = vec3 1 1 1
           \<and> quaternion m = setFromEuler 0 (pi / 4) 0"
proof -
  obtain st1 go where b: "loadSkateboardModel_begin st = (st1, go)"
    by (cases "loadSkateboardModel_begin st") auto
  have go: "go"
  proof (rule ccontr)
    assume "\<not> go"
    with b have "loadSkateboardModel_begin st = (st1, False)" by simp
    from begin_refused[OF this] assms b \<open>\<not> go\<close> show False
      by (simp add: loadSkateboardModel_def)
  qed
  with b have run: "loadSkateboardModel outcome st = loadSkateboardModel_resume outcome st1"
    by (simp add: loadSkateboardModel_def)
  from assms run have "error (loadSkateboardModel_resume outcome st1) = None" by simp
  from resume_no_error[OF this] obtain g base_m top_m bottom_m cs where
    "outcome = Resolved g"
    "findMeshInModel (object g) ''base'' = Some base_m"
    "findMeshInModel (object g) ''top_sticker'' = Some top_m"
    "findMeshInModel (object g) ''bottom_sticker'' = Some bottom_m"
    "sceneRef st1 = Some cs"
    by blast
  then show ?thesis
    unfolding run by (simp add: loadSkateboardModel_resume_def Let_def)
qed

lemma deck_load_ok: "error (loadSkateboardModel (Resolved deck_model) ready_state) = None"
proof -
  have b: "loadSkateboardModel_begin ready_state = (ready_state\<lparr>modelLoading := True\<rparr>, True)"
    by (simp add: loadSkateboardModel_begin_def ready_state_def Let_def)
  show ?thesis
    by (simp add: loadSkateboardModel_def b loadSkateboardModel_resume_def Let_def
        deck_model_def deck_graph_meshes) (simp add: ready_state_def)
qed

theorem flip_twice_restores_witness:
  "\<exists>model. modelRef (loadSkateboardModel (Resolved deck_model) ready_state) = Some model
     \<and> unit_q (quaternion model) \<and> scale model = vec3 1 1 1 \<and> position model = vec3 0 1 0
     \<and> (\<exists>m2. modelRef (flipModel AxisY (flipModel AxisY
                 (loadSkateboardModel (Resolved deck_model) ready_state))) = Some m2
            \<and> position m2 = vec3 0 1 0
            \<and> updateMatrix m2 = updateMatrix model)"
proof -
  let ?st = "loadSkateboardModel (Resolved deck_model) ready_state"
  from loaded_model_pose[OF deck_load_ok] obtain model where
    m: "modelRef ?st = Some model" and p: "position model = vec3 0 1 0" and
    s: "scale model = vec3 1 1 1" and q: "quaternion model = setFromEuler 0 (pi / 4) 0"
    by blast
  have u: "unit_q (quaternion model)" unfolding q by (rule unit_setFromEuler)
  from flip_twice_restores[OF m u s, of AxisY] obtain m2 where
    "modelRef (flipModel AxisY (flipModel AxisY ?st)) = Some m2"
    "position m2 = position model" "updateMatrix m2 = updateMatrix model"
    by blast
  with m u s p show ?thesis by auto
qed

end
